theory Spec2Isabelle
  imports Main
begin

section \<open>Data model (src/config.ts, src/main.ts)\<close>

text \<open>
  The embedding follows the version of \<^verbatim>\<open>main.ts\<close> that keeps the certificates in
  \<^verbatim>\<open>ModuleSecrets\<close> (class \<^verbatim>\<open>ModuleInstance extends InstanceBase<ModuleConfig, ModuleSecrets>\<close>,
  with \<^verbatim>\<open>connectToBridge\<close> and \<^verbatim>\<open>UNKNOWN_BRIDGE_ID\<close>), and the \<^verbatim>\<open>config.ts\<close> that declares
  \<^verbatim>\<open>ModuleSecrets\<close> and \<^verbatim>\<open>BridgeCerts\<close>.
  An optional field (\<^verbatim>\<open>bridgeID?: string\<close>) is an \<open>option\<close>; \<^verbatim>\<open>undefined\<close> is \<open>None\<close>.
  The host of the configuration is an IP address (the \<^verbatim>\<open>regex\<close> of the config field).
\<close>

record ModuleConfig =
  host :: string
  port :: nat
  bridgeID :: "string option"

record BridgeCerts =
  ca :: string
  certificate :: string
  privateKey :: string

record ModuleSecrets =
  bridgeCerts :: "BridgeCerts option"

text \<open>\<^verbatim>\<open>BridgeNetInfo\<close> of the discovery library, as far as the handler reads it.\<close>

record BridgeNetInfo =
  ipAddr :: string
  bridgeid :: string
  systype :: "string option"

text \<open>\<^verbatim>\<open>DeviceDefinition\<close> of the session library, as far as \<^verbatim>\<open>connectToBridge\<close> reads it.
  \<^verbatim>\<open>AssociatedArea\<close> is an object reference when present, so it is truthy exactly when present.\<close>

record DeviceDefinition =
  Name :: string
  SerialNumber :: string
  DeviceType :: string
  ModelNumber :: string
  AssociatedArea :: "string option"

text \<open>An item of the enumeration: \<^verbatim>\<open>device instanceof Error\<close> or a device.\<close>

datatype enum_item = DeviceError string | Device DeviceDefinition

text \<open>An inbound message of the pairing client, with the paths the code reads:
  \<^verbatim>\<open>Header.StatusCode\<close>, \<^verbatim>\<open>Body.Status.Permissions\<close>, \<^verbatim>\<open>Body.SigningResult.RootCertificate\<close>
  and \<^verbatim>\<open>Body.SigningResult.Certificate\<close>. The code reads them from an untyped value
  (a cast in the first listener, \<^verbatim>\<open>any\<close> in the second). A status message of the bridge
  has no \<^verbatim>\<open>SigningResult\<close>, so that field is optional: reading a certificate from a body
  without it raises a \<^verbatim>\<open>TypeError\<close>. Where a signing result is present, its two
  certificates are the strings of \<^verbatim>\<open>BridgeCerts\<close>.\<close>

record leap_header =
  StatusCode :: string

record leap_status =
  Permissions :: "string list"

record leap_signing_result =
  RootCertificate :: string
  Certificate :: string

record leap_body =
  Status :: leap_status
  SigningResult :: "leap_signing_result option"

record leap_message =
  Header :: leap_header
  Body :: leap_body

text \<open>The key pair handed to the callback of \<^verbatim>\<open>forge.pki.rsa.generateKeyPair\<close>.\<close>

record KeyPair =
  publicKey :: string
  keyPairPrivateKey :: string

text \<open>Pure library functions the code calls; they are parameters of the model.\<close>

record library =
  JSON_stringify :: "leap_message \<Rightarrow> string"
  certificationRequestToPem :: "string \<Rightarrow> string \<Rightarrow> string \<Rightarrow> string"
  privateKeyToPem :: "string \<Rightarrow> string"

datatype InstanceStatus = Ok | Connecting | Disconnected | ConnectionFailure | BadConfig

datatype log_level = debug | info | warn | error

text \<open>Everything the instance does to the outside world, in the order it does it.\<close>

datatype effect =
    Log log_level string
  | UpdateStatus InstanceStatus "string option"
  | SaveConfig ModuleConfig ModuleSecrets
  | BeginSearching
  | PairingConnect string nat
  | GenerateKeyPair nat
  | RequestPair string
  | LeapConnect string nat string string string
  | GetDeviceInfo
  | UpdateActions
  | UpdateFeedbacks
  | UpdateVariableDefinitions

text \<open>Two classes of effects: logging, and what \<^verbatim>\<open>pairWithBridge\<close> can do at all.\<close>

fun is_Log :: "effect \<Rightarrow> bool" where
  "is_Log (Log l m) = True"
| "is_Log _ = False"

fun pairing_effect :: "effect \<Rightarrow> bool" where
  "pairing_effect (Log l m) = True"
| "pairing_effect (UpdateStatus st m) = True"
| "pairing_effect (PairingConnect h p) = True"
| "pairing_effect (GenerateKeyPair n) = True"
| "pairing_effect (RequestPair c) = True"
| "pairing_effect _ = False"

text \<open>The fields of \<^verbatim>\<open>ModuleInstance\<close>, and the effects performed so far.\<close>

record ModuleInstance =
  config :: ModuleConfig
  secrets :: ModuleSecrets
  discoveredBridges :: "string \<rightharpoonup> string"
  bridge :: "string option"
  devicesOnBridge :: "DeviceDefinition list"
  trace :: "effect list"

definition PAIRING_PORT :: nat where
  "PAIRING_PORT = 8083"

definition LEAP_PORT :: nat where
  "LEAP_PORT = 8081"

definition UNKNOWN_BRIDGE_ID :: string where
  "UNKNOWN_BRIDGE_ID = ''unknown-bridge-id''"

definition emit :: "effect list \<Rightarrow> ModuleInstance \<Rightarrow> ModuleInstance" where
  "emit es s = s\<lparr>trace := trace s @ es\<rparr>"

text \<open>The constructor: \<^verbatim>\<open>discoveredBridges = {}\<close>, \<^verbatim>\<open>devicesOnBridge = []\<close>. The configuration
  and the secrets are the ones the host passes to the first \<^verbatim>\<open>init\<close>.\<close>

definition constructor :: "ModuleConfig \<Rightarrow> ModuleSecrets \<Rightarrow> ModuleInstance" where
  "constructor c x =
     \<lparr>config = c, secrets = x, discoveredBridges = Map.empty, bridge = None,
      devicesOnBridge = [], trace = []\<rparr>"

section \<open>Discovery registry (startDiscovery)\<close>

text \<open>The template literal prints an absent \<^verbatim>\<open>systype\<close> as \<^verbatim>\<open>undefined\<close>.\<close>

definition show_optional :: "string option \<Rightarrow> string" where
  "show_optional x = (case x of None \<Rightarrow> ''undefined'' | Some v \<Rightarrow> v)"

text \<open>The handler of the \<^verbatim>\<open>discovered\<close> event:
  \<^verbatim>\<open>this.discoveredBridges[bridgeInfo.ipAddr] = bridgeInfo.bridgeid\<close>, then an informational log.\<close>

definition discovered :: "BridgeNetInfo \<Rightarrow> ModuleInstance \<Rightarrow> ModuleInstance" where
  "discovered bridgeInfo s =
     emit [Log info (''Discovered Bridge '' @ bridgeid bridgeInfo @ '' at '' @ ipAddr bridgeInfo
                      @ '': '' @ show_optional (systype bridgeInfo))]
       (s\<lparr>discoveredBridges := (discoveredBridges s)(ipAddr bridgeInfo \<mapsto> bridgeid bridgeInfo)\<rparr>)"

text \<open>A finite sequence of discovery events, handled in their order of arrival.\<close>

definition deliver :: "BridgeNetInfo list \<Rightarrow> ModuleInstance \<Rightarrow> ModuleInstance" where
  "deliver events s = foldl (\<lambda>s' bridgeInfo. discovered bridgeInfo s') s events"

text \<open>\<^verbatim>\<open>startDiscovery\<close> creates a finder, registers the handler and starts the search.\<close>

definition startDiscovery :: "ModuleInstance \<Rightarrow> ModuleInstance" where
  "startDiscovery s = emit [BeginSearching] s"

section \<open>Pairing (pairWithBridge)\<close>

text \<open>
  What the outside world does during one run of \<^verbatim>\<open>pairWithBridge\<close>:
  \<^item> \<open>pairingConnect\<close>: \<^verbatim>\<open>client.connect()\<close> resolves (\<open>None\<close>) or rejects with a message;
  \<^item> \<open>inbound\<close>: the \<^verbatim>\<open>message\<close> events of the pairing client in their order of arrival,
    each with its arrival time in milliseconds after the first listener was registered;
  \<^item> \<open>generateKeyPair\<close>: the arguments \<^verbatim>\<open>(err, keyPair)\<close> of the key generation callback,
    and \<open>keygenMillis\<close>, the time until that callback runs;
  \<^item> \<open>discoveredDuring\<close>: the discovery events whose handler runs while the function is
    suspended at each of its four \<^verbatim>\<open>await\<close>s.
\<close>

datatype pairing_await = AwaitConnect | AwaitButton | AwaitKeys | AwaitCertificate

record pairing_env =
  pairingConnect :: "string option"
  inbound :: "(nat \<times> leap_message) list"
  generateKeyPair :: "string + KeyPair"
  keygenMillis :: nat
  discoveredDuring :: "pairing_await \<Rightarrow> BridgeNetInfo list"

text \<open>The ways \<^verbatim>\<open>pairWithBridge\<close> ends: the \<^verbatim>\<open>return\<close> after a failed connect, the
  \<^verbatim>\<open>return\<close> after the rejected wait for the button, the rejection of the key generation
  promise (not caught, so the function itself rejects), the \<^verbatim>\<open>return\<close> of the CSR
  \<^verbatim>\<open>catch\<close> block (after the 5 second timer, or after the \<^verbatim>\<open>throw\<close> on a status code other
  than \<^verbatim>\<open>200 OK\<close>), the \<^verbatim>\<open>TypeError\<close> of reading a certificate from a response without
  \<^verbatim>\<open>SigningResult\<close> (after the \<^verbatim>\<open>try\<close> block, so not caught either), and the end of the
  function.\<close>

datatype pair_exit =
    PairingTransportError string
  | PairingTimeout
  | KeyGenerationFailed string
  | CsrTimeout
  | CsrRejected leap_message
  | BundleTypeError
  | Paired

text \<open>The exits by which the promise of \<^verbatim>\<open>pairWithBridge\<close> rejects, with the message of
  the error.\<close>

fun thrown :: "pair_exit \<Rightarrow> string option" where
  "thrown (KeyGenerationFailed message) = Some message"
| "thrown BundleTypeError = Some ''Cannot read properties of undefined''"
| "thrown _ = None"

datatype 'a settled = Resolved 'a | Rejected string

text \<open>The event a listener registered with \<^verbatim>\<open>client.once('message', ...)\<close> at time \<open>start\<close>
  receives: the first one that arrives from then on. An event that arrived while no
  listener was registered is lost. \<^verbatim>\<open>once\<close> removes the listener when it has run.\<close>

fun next_message ::
  "nat \<Rightarrow> (nat \<times> leap_message) list \<Rightarrow> ((nat \<times> leap_message) \<times> (nat \<times> leap_message) list) option"
where
  "next_message start [] = None"
| "next_message start ((t, response) # rest) =
     (if t < start then next_message start rest else Some ((t, response), rest))"

text \<open>
  The first promise: a 30000 ms timer that rejects with \<^verbatim>\<open>timed out\<close>, and a \<^verbatim>\<open>once\<close>
  listener, registered at time 0. The listener logs the message; it resolves the promise
  (and clears the timer) when the permissions include \<^verbatim>\<open>PhysicalAccess\<close>, and only logs
  otherwise. A message that arrives when the timer has fired finds the promise rejected.
  The result holds the logs of the listener and, when resolved, the time of the
  confirming message and the messages after it.
\<close>

definition waitForButton ::
  "library \<Rightarrow> (nat \<times> leap_message) list
     \<Rightarrow> effect list \<times> (nat \<times> (nat \<times> leap_message) list) settled"
where
  "waitForButton lib messages =
     (case next_message 0 messages of
        None \<Rightarrow> ([], Rejected ''timed out'')
      | Some ((t, response), rest) \<Rightarrow>
          if 30000 \<le> t then ([], Rejected ''timed out'')
          else if ''PhysicalAccess'' \<in> set (Permissions (Status (Body response)))
          then ([Log debug (''got message '' @ JSON_stringify lib response),
                 Log debug ''Physical access confirmed''],
                Resolved (t, rest))
          else ([Log debug (''got message '' @ JSON_stringify lib response),
                 Log debug (''unexpected pairing result '' @ JSON_stringify lib response)],
                Rejected ''timed out''))"

text \<open>The second promise: a 5000 ms timer that rejects with \<^verbatim>\<open>CSR response timed out\<close>, and
  a \<^verbatim>\<open>once\<close> listener, registered at time \<open>start\<close>, that resolves with whatever message
  comes first.\<close>

definition waitForCertificate ::
  "nat \<Rightarrow> (nat \<times> leap_message) list \<Rightarrow> leap_message settled"
where
  "waitForCertificate start messages =
     (case next_message start messages of
        None \<Rightarrow> Rejected ''CSR response timed out''
      | Some ((t, response), rest) \<Rightarrow>
          if t < start + 5000 then Resolved response else Rejected ''CSR response timed out'')"

text \<open>The \<^verbatim>\<open>catch\<close> block of the CSR exchange.\<close>

definition csrFailed :: "string \<Rightarrow> ModuleInstance \<Rightarrow> ModuleInstance" where
  "csrFailed message s =
     emit [Log error (''CSR failed: '' @ message),
           UpdateStatus ConnectionFailure (Some (''CSR failed: '' @ message))] s"

text \<open>The end of \<^verbatim>\<open>pairWithBridge\<close> (\<^verbatim>\<open>// store cert/keys\<close>), first part: the bridge
  id is the registry's entry for the host when \<^verbatim>\<open>host in discoveredBridges\<close>, the sentinel
  otherwise, and two logs. (For an IP address, \<^verbatim>\<open>in\<close> is true exactly for the keys that
  discovery has written.)\<close>

definition assignBridgeID :: "ModuleInstance \<Rightarrow> ModuleInstance" where
  "assignBridgeID s =
     (let s1 = s\<lparr>config := (config s)\<lparr>bridgeID :=
                  (if discoveredBridges s (host (config s)) \<noteq> None
                   then discoveredBridges s (host (config s))
                   else Some UNKNOWN_BRIDGE_ID)\<rparr>\<rparr>
      in emit [Log debug (''using bridge id: '' @ show_optional (bridgeID (config s1))),
               Log debug ''Storing bridge certificates''] s1)"

text \<open>Second part: the object literal reads the two certificates of
  \<^verbatim>\<open>certResult.Body.SigningResult\<close>, which raises a \<^verbatim>\<open>TypeError\<close> when the response has
  none (the bridge id is assigned by then, the secrets are not); otherwise the three
  values are assigned to \<^verbatim>\<open>this.secrets.bridgeCerts\<close> as one object.\<close>

definition storeCertificates ::
  "library \<Rightarrow> KeyPair \<Rightarrow> leap_message \<Rightarrow> ModuleInstance \<Rightarrow> pair_exit \<times> ModuleInstance"
where
  "storeCertificates lib keys certResult s =
     (let s1 = assignBridgeID s
      in case SigningResult (Body certResult) of
           None \<Rightarrow> (BundleTypeError, s1)
         | Some signingResult \<Rightarrow>
             (Paired,
              s1\<lparr>secrets := (secrets s1)\<lparr>bridgeCerts := Some
                    \<lparr>ca = RootCertificate signingResult,
                     certificate = Certificate signingResult,
                     privateKey = privateKeyToPem lib (keyPairPrivateKey keys)\<rparr>\<rparr>\<rparr>))"

text \<open>From \<^verbatim>\<open>// generate csr and sign with private key\<close> on, with the key pair, the time
  \<open>start\<close> at which the second listener is registered and the messages after the confirming
  one.\<close>

definition requestCertificate ::
  "library \<Rightarrow> pairing_env \<Rightarrow> KeyPair \<Rightarrow> nat \<Rightarrow> (nat \<times> leap_message) list
     \<Rightarrow> ModuleInstance \<Rightarrow> pair_exit \<times> ModuleInstance"
where
  "requestCertificate lib env keys start messages s =
     (let csrText = certificationRequestToPem lib (publicKey keys)
                      ''companion-module-lutron-caseta'' (keyPairPrivateKey keys);
          s1 = emit [Log debug ''Sending CSR to bridge for signing'', RequestPair csrText] s;
          s2 = deliver (discoveredDuring env AwaitCertificate) s1
      in case waitForCertificate start messages of
           Rejected message \<Rightarrow> (CsrTimeout, csrFailed message s2)
         | Resolved certResult \<Rightarrow>
             if StatusCode (Header certResult) \<noteq> ''200 OK''
             then (CsrRejected certResult,
                   csrFailed (''bad CSR response: '' @ JSON_stringify lib certResult) s2)
             else storeCertificates lib keys certResult s2)"

text \<open>From \<^verbatim>\<open>// generate  keys\<close> on, with the time \<open>t\<close> of the confirming message.\<close>

definition generateKeys ::
  "library \<Rightarrow> pairing_env \<Rightarrow> nat \<Rightarrow> (nat \<times> leap_message) list
     \<Rightarrow> ModuleInstance \<Rightarrow> pair_exit \<times> ModuleInstance"
where
  "generateKeys lib env t messages s =
     (let s1 = emit [Log debug ''Generating keys for CSR'', GenerateKeyPair 2048] s;
          s2 = deliver (discoveredDuring env AwaitKeys) s1
      in case generateKeyPair env of
           Inl message \<Rightarrow>
             (KeyGenerationFailed message,
              emit [Log error (''key generation error: '' @ message)] s2)
         | Inr keys \<Rightarrow> requestCertificate lib env keys (t + keygenMillis env) messages s2)"

text \<open>The whole function. The effects of the discovery handlers that run during a
  suspension are put at its start.\<close>

definition pairWithBridge ::
  "library \<Rightarrow> pairing_env \<Rightarrow> ModuleInstance \<Rightarrow> pair_exit \<times> ModuleInstance"
where
  "pairWithBridge lib env s =
     (let s1 = emit [Log debug ''Pairing client connecting'',
                     PairingConnect (host (config s)) PAIRING_PORT] s;
          s2 = deliver (discoveredDuring env AwaitConnect) s1
      in case pairingConnect env of
           Some message \<Rightarrow>
             (PairingTransportError message,
              emit [UpdateStatus ConnectionFailure
                      (Some (''Failed to initialize pairing: '' @ message)),
                    Log error (''Failed to initialize pairing: '' @ message)] s2)
         | None \<Rightarrow>
             (let s3 = emit [Log info ''Waiting for button press on bridge...''] s2;
                  s4 = deliver (discoveredDuring env AwaitButton) s3
              in case waitForButton lib (inbound env) of
                   (logs, Rejected message) \<Rightarrow>
                     (PairingTimeout,
                      emit (logs @
                            [Log error (''waiting for button push failed. Error: '' @ message),
                             UpdateStatus ConnectionFailure
                               (Some (''Pairing timed out: '' @ message))]) s4)
                 | (logs, Resolved (t, rest)) \<Rightarrow> generateKeys lib env t rest (emit logs s4)))"

section \<open>Connection (connectToBridge, init, configUpdated)\<close>

text \<open>What the outside world does during one run of \<^verbatim>\<open>connectToBridge\<close>:
  \<^verbatim>\<open>leapClient.connect()\<close> resolves (\<open>None\<close>) or rejects with a message, and
  \<^verbatim>\<open>bridge.getDeviceInfo()\<close> rejects with a message or resolves with the enumeration.\<close>

record bridge_env =
  leapConnect :: "string option"
  getDeviceInfo :: "string + enum_item list"

text \<open>The ways \<^verbatim>\<open>connectToBridge\<close> ends: the two early \<^verbatim>\<open>return\<close>s, the rejection of
  \<^verbatim>\<open>getDeviceInfo\<close> (not caught), and the end of the function.\<close>

datatype connect_exit =
    NotConfigured
  | ConnectionFailed string
  | EnumerationFailed string
  | Loaded

datatype outcome = Returned | Threw string

text \<open>\<^verbatim>\<open>!x\<close> for an optional string: \<^verbatim>\<open>undefined\<close> and the empty string are falsy.\<close>

definition falsy :: "string option \<Rightarrow> bool" where
  "falsy x = (x = None \<or> x = Some [])"

text \<open>The callback of \<^verbatim>\<open>devices.forEach\<close>.\<close>

fun loadDevice :: "enum_item \<Rightarrow> ModuleInstance \<Rightarrow> ModuleInstance" where
  "loadDevice (DeviceError message) s =
     emit [Log error (''Error retrieving device: '' @ message)] s"
| "loadDevice (Device device) s =
     (if bridgeID (config s) = Some UNKNOWN_BRIDGE_ID \<and> DeviceType device = ''SmartBridge''
      then (let s1 = s\<lparr>config := (config s)\<lparr>bridgeID := Some (SerialNumber device)\<rparr>\<rparr>
            in emit [SaveConfig (config s1) (secrets s1)] s1)
      else (case AssociatedArea device of
              None \<Rightarrow> s
            | Some area \<Rightarrow>
                (emit [Log info (DeviceType device @ '' device found '' @ Name device @ ''.'')] s)
                  \<lparr>devicesOnBridge := devicesOnBridge s @ [device]\<rparr>))"

definition loadDevices :: "enum_item list \<Rightarrow> ModuleInstance \<Rightarrow> ModuleInstance" where
  "loadDevices devices s = foldl (\<lambda>s' device. loadDevice device s') s devices"

definition notConfigured :: "ModuleInstance \<Rightarrow> connect_exit \<times> ModuleInstance" where
  "notConfigured s =
     (NotConfigured,
      emit [Log warn ''No bridge ID or certificates found in config/secrets'',
            UpdateStatus BadConfig (Some ''No valid configuration or pairing found'')] s)"

definition connectToBridge :: "bridge_env \<Rightarrow> ModuleInstance \<Rightarrow> connect_exit \<times> ModuleInstance" where
  "connectToBridge env s =
     (if falsy (bridgeID (config s)) then notConfigured s
      else case bridgeCerts (secrets s) of
        None \<Rightarrow> notConfigured s
      | Some certs \<Rightarrow>
          (let s1 = emit [Log debug (''Connecting to bridge with id: ''
                                      @ show_optional (bridgeID (config s))),
                          UpdateStatus Connecting (Some ''Connecting to Bridge''),
                          LeapConnect (host (config s)) LEAP_PORT
                            (ca certs) (privateKey certs) (certificate certs)] s
           in case leapConnect env of
                Some message \<Rightarrow>
                  (ConnectionFailed message,
                   emit [UpdateStatus ConnectionFailure
                           (Some (''Bridge connection failed: '' @ message)),
                         Log error (''Bridge connection failed: '' @ message)] s1)
              | None \<Rightarrow>
                  (let s2 = emit [GetDeviceInfo] (s1\<lparr>bridge := bridgeID (config s1)\<rparr>)
                   in case getDeviceInfo env of
                        Inl message \<Rightarrow> (EnumerationFailed message, s2)
                      | Inr devices \<Rightarrow>
                          (Loaded,
                           emit [Log debug ''Loaded'', UpdateStatus Ok None]
                             (loadDevices devices s2)))))"

text \<open>\<^verbatim>\<open>updateActions\<close>, \<^verbatim>\<open>updateFeedbacks\<close>, \<^verbatim>\<open>updateVariableDefinitions\<close>.\<close>

definition exportDefinitions :: "ModuleInstance \<Rightarrow> ModuleInstance" where
  "exportDefinitions s = emit [UpdateActions, UpdateFeedbacks, UpdateVariableDefinitions] s"

definition init ::
  "ModuleConfig \<Rightarrow> ModuleSecrets \<Rightarrow> bridge_env \<Rightarrow> ModuleInstance \<Rightarrow> outcome \<times> ModuleInstance"
where
  "init cfg secs env s =
     (let s1 = s\<lparr>config := cfg, secrets := secs\<rparr>;
          s2 = emit [Log debug ''Starting bridge discovery'',
                     UpdateStatus Connecting (Some ''Initializing'')] s1;
          s3 = startDiscovery s2
      in if bridgeCerts (secrets s3) \<noteq> None
         then (case connectToBridge env s3 of
                 (EnumerationFailed message, s4) \<Rightarrow> (Threw message, s4)
               | (_, s4) \<Rightarrow> (Returned, exportDefinitions s4))
         else (Returned, exportDefinitions s3))"

text \<open>The state in which \<^verbatim>\<open>configUpdated\<close> calls \<^verbatim>\<open>pairWithBridge\<close> when the host changed.\<close>

definition beforePairing :: "ModuleConfig \<Rightarrow> ModuleSecrets \<Rightarrow> ModuleInstance \<Rightarrow> ModuleInstance" where
  "beforePairing cfg secs s =
     emit [Log debug ''host changed'',
           UpdateStatus Connecting (Some ''Pairing with Bridge''),
           Log info ''pairing...'']
       (s\<lparr>config := cfg, secrets := secs\<rparr>)"

text \<open>From \<^verbatim>\<open>this.saveConfig(this.config, this.secrets)\<close> on.\<close>

definition reinitialize :: "bridge_env \<Rightarrow> ModuleInstance \<Rightarrow> outcome \<times> ModuleInstance" where
  "reinitialize benv s =
     (let s1 = emit [SaveConfig (config s) (secrets s), Log debug ''re-initializing module''] s
      in init (config s1) (secrets s1) benv s1)"

definition configUpdated ::
  "library \<Rightarrow> ModuleConfig \<Rightarrow> ModuleSecrets \<Rightarrow> pairing_env \<Rightarrow> bridge_env
     \<Rightarrow> ModuleInstance \<Rightarrow> outcome \<times> ModuleInstance"
where
  "configUpdated lib cfg secs penv benv s =
     (let prevConfig = config s
      in if host cfg \<noteq> host prevConfig
         then (case pairWithBridge lib penv (beforePairing cfg secs s) of
                 (exit, s1) \<Rightarrow>
                   (case thrown exit of
                      Some message \<Rightarrow> (Threw message, s1)
                    | None \<Rightarrow> reinitialize benv s1))
         else reinitialize benv
                (emit [Log debug ''host unchanged''] (s\<lparr>config := cfg, secrets := secs\<rparr>)))"

section \<open>Notions used in the statements\<close>

text \<open>All the discovery events handled during one run of \<^verbatim>\<open>pairWithBridge\<close> that reaches
  its end.\<close>

definition discoveredWhilePairing :: "pairing_env \<Rightarrow> BridgeNetInfo list" where
  "discoveredWhilePairing env =
     discoveredDuring env AwaitConnect @ discoveredDuring env AwaitButton
       @ discoveredDuring env AwaitKeys @ discoveredDuring env AwaitCertificate"

text \<open>The effects performed between an earlier state \<open>s\<close> and a later state \<open>s'\<close>.\<close>

definition effects_since :: "ModuleInstance \<Rightarrow> ModuleInstance \<Rightarrow> effect list" where
  "effects_since s s' = drop (length (trace s)) (trace s')"

text \<open>What the \<^verbatim>\<open>forEach\<close> over the enumeration can do at all.\<close>

fun enumeration_effect :: "effect \<Rightarrow> bool" where
  "enumeration_effect (Log l m) = True"
| "enumeration_effect (SaveConfig c x) = True"
| "enumeration_effect _ = False"

text \<open>The devices of an enumeration that have an associated area, in their order.\<close>

fun devicesWithArea :: "enum_item list \<Rightarrow> DeviceDefinition list" where
  "devicesWithArea [] = []"
| "devicesWithArea (DeviceError message # items) = devicesWithArea items"
| "devicesWithArea (Device device # items) =
     (if AssociatedArea device \<noteq> None then device # devicesWithArea items
      else devicesWithArea items)"

text \<open>The state of \<^verbatim>\<open>connectToBridge\<close> when \<^verbatim>\<open>getDeviceInfo\<close> has been called.\<close>

definition connecting :: "BridgeCerts \<Rightarrow> ModuleInstance \<Rightarrow> ModuleInstance" where
  "connecting certs s =
     emit [GetDeviceInfo]
       ((emit [Log debug (''Connecting to bridge with id: '' @ show_optional (bridgeID (config s))),
               UpdateStatus Connecting (Some ''Connecting to Bridge''),
               LeapConnect (host (config s)) LEAP_PORT
                 (ca certs) (privateKey certs) (certificate certs)] s)
          \<lparr>bridge := bridgeID (config s)\<rparr>)"

text \<open>Every session among the effects \<open>es\<close> is opened to the host of \<open>cfg\<close> with the bundle
  of \<open>secs\<close>, and one is opened when the bridge id is set and a bundle is stored.\<close>

definition offered :: "ModuleConfig \<Rightarrow> ModuleSecrets \<Rightarrow> effect list \<Rightarrow> bool" where
  "offered cfg secs es =
     ((\<forall>h p a k c. LeapConnect h p a k c \<in> set es
          \<longrightarrow> h = host cfg \<and> p = LEAP_PORT
            \<and> bridgeCerts secs = Some \<lparr>ca = a, certificate = c, privateKey = k\<rparr>)
      \<and> (\<forall>certs. \<not> falsy (bridgeID cfg) \<and> bridgeCerts secs = Some certs
          \<longrightarrow> LeapConnect (host cfg) LEAP_PORT
                (ca certs) (privateKey certs) (certificate certs) \<in> set es))"

section \<open>Concrete inputs\<close>

definition example_library :: library where
  "example_library =
     \<lparr>JSON_stringify = (\<lambda>m. StatusCode (Header m)),
      certificationRequestToPem = (\<lambda>public commonName private. commonName),
      privateKeyToPem = (\<lambda>key. key)\<rparr>"

definition status_message :: "string list \<Rightarrow> leap_message" where
  "status_message permissions =
     \<lparr>Header = \<lparr>StatusCode = ''200 OK''\<rparr>,
      Body = \<lparr>Status = \<lparr>Permissions = permissions\<rparr>,
              SigningResult = None\<rparr>\<rparr>"

definition signing_message :: "string \<Rightarrow> string \<Rightarrow> string \<Rightarrow> leap_message" where
  "signing_message code root cert =
     \<lparr>Header = \<lparr>StatusCode = code\<rparr>,
      Body = \<lparr>Status = \<lparr>Permissions = []\<rparr>,
              SigningResult = Some \<lparr>RootCertificate = root, Certificate = cert\<rparr>\<rparr>\<rparr>"

definition example_keys :: KeyPair where
  "example_keys = \<lparr>publicKey = ''new public key'', keyPairPrivateKey = ''new private key''\<rparr>"

definition old_certs :: BridgeCerts where
  "old_certs = \<lparr>ca = ''old root'', certificate = ''old certificate'', privateKey = ''old key''\<rparr>"

definition paired_config :: ModuleConfig where
  "paired_config = \<lparr>host = ''192.168.1.50'', port = 8081, bridgeID = Some ''0A1B2C3D''\<rparr>"

definition paired_instance :: ModuleInstance where
  "paired_instance = constructor paired_config \<lparr>bridgeCerts = Some old_certs\<rparr>"

definition pairing_run :: "(nat \<times> leap_message) list \<Rightarrow> pairing_env" where
  "pairing_run messages =
     \<lparr>pairingConnect = None, inbound = messages, generateKeyPair = Inr example_keys,
      keygenMillis = 800, discoveredDuring = (\<lambda>suspension. [])\<rparr>"

definition ev1 :: BridgeNetInfo where
  "ev1 = \<lparr>ipAddr = ''10.0.0.5'', bridgeid = ''B1'', systype = None\<rparr>"

definition ev2 :: BridgeNetInfo where
  "ev2 = \<lparr>ipAddr = ''10.0.0.6'', bridgeid = ''B2'', systype = None\<rparr>"

definition ev3 :: BridgeNetInfo where
  "ev3 = \<lparr>ipAddr = ''10.0.0.5'', bridgeid = ''B3'', systype = None\<rparr>"

definition dimmer :: DeviceDefinition where
  "dimmer = \<lparr>Name = ''Kitchen Dimmer'', SerialNumber = ''01F2A3B4'', DeviceType = ''WallDimmer'',
             ModelNumber = ''PD-6WCL-XX'', AssociatedArea = Some ''/area/2''\<rparr>"

definition pico :: DeviceDefinition where
  "pico = \<lparr>Name = ''Hall Remote'', SerialNumber = ''02C4D5E6'', DeviceType = ''Pico3ButtonRaiseLower'',
           ModelNumber = ''PJ2-3BRL-GXX-X01'', AssociatedArea = Some ''/area/3''\<rparr>"

definition control_unit :: DeviceDefinition where
  "control_unit = \<lparr>Name = ''Smart Bridge'', SerialNumber = ''0A1B2C3D'', DeviceType = ''SmartBridge'',
                   ModelNumber = ''L-BDG2-WH'', AssociatedArea = Some ''/area/1''\<rparr>"

definition enumeration :: "enum_item list \<Rightarrow> bridge_env" where
  "enumeration items = \<lparr>leapConnect = None, getDeviceInfo = Inr items\<rparr>"

definition stored :: ModuleSecrets where
  "stored = \<lparr>bridgeCerts = Some old_certs\<rparr>"

definition connected_instance :: ModuleInstance where
  "connected_instance = snd (init paired_config stored (enumeration [Device dimmer]) paired_instance)"

definition unresolved_instance :: ModuleInstance where
  "unresolved_instance =
     constructor (paired_config\<lparr>bridgeID := Some UNKNOWN_BRIDGE_ID\<rparr>) stored"

definition moved_config :: ModuleConfig where
  "moved_config = paired_config\<lparr>host := ''192.168.1.77''\<rparr>"

definition unit_listed_instance :: ModuleInstance where
  "unit_listed_instance =
     snd (init paired_config stored (enumeration [Device control_unit, Device dimmer])
            paired_instance)"

definition completed_pairing :: pairing_env where
  "completed_pairing =
     pairing_run [(1000, status_message [''Public'', ''PhysicalAccess'']),
                  (2500, signing_message ''200 OK'' ''new root'' ''new certificate'')]"

definition busy_notice :: leap_message where
  "busy_notice =
     \<lparr>Header = \<lparr>StatusCode = ''503 ServiceUnavailable''\<rparr>,
      Body = \<lparr>Status = \<lparr>Permissions = [''Public'', ''PhysicalAccess'']\<rparr>,
              SigningResult = None\<rparr>\<rparr>"

definition status_repeated :: pairing_env where
  "status_repeated =
     pairing_run [(1000, status_message [''Public'', ''PhysicalAccess'']),
                  (2500, status_message [''Public'', ''PhysicalAccess''])]"

section \<open>Lemmas on the registry\<close>

lemma deliver_Nil: "deliver [] s = s"
  by (simp add: deliver_def)

lemma deliver_Cons: "deliver (e # es) s = deliver es (discovered e s)"
  by (simp add: deliver_def)

lemma deliver_snoc: "deliver (es @ [e]) s = discovered e (deliver es s)"
  by (simp add: deliver_def)

lemma discovered_fields:
  "config (discovered e s) = config s"
  "secrets (discovered e s) = secrets s"
  "devicesOnBridge (discovered e s) = devicesOnBridge s"
  "bridge (discovered e s) = bridge s"
  by (simp_all add: discovered_def emit_def)

lemma discovered_registry:
  "discoveredBridges (discovered e s) = (discoveredBridges s)(ipAddr e \<mapsto> bridgeid e)"
  by (simp add: discovered_def emit_def)

lemma deliver_fields:
  "config (deliver es s) = config s"
  "secrets (deliver es s) = secrets s"
  "devicesOnBridge (deliver es s) = devicesOnBridge s"
  "bridge (deliver es s) = bridge s"
  by (induction es arbitrary: s) (simp_all add: deliver_Nil deliver_Cons discovered_fields)

lemma deliver_registry_last:
  "discoveredBridges (deliver es s) a =
     (if filter (\<lambda>e. ipAddr e = a) es = [] then discoveredBridges s a
      else Some (bridgeid (last (filter (\<lambda>e. ipAddr e = a) es))))"
proof (induction es rule: rev_induct)
  case Nil
  show ?case by (simp add: deliver_Nil)
next
  case (snoc x xs)
  show ?case
  proof (cases "ipAddr x = a")
    case True
    then show ?thesis
      by (simp add: deliver_snoc discovered_registry)
  next
    case False
    then show ?thesis
      using snoc.IH by (simp add: deliver_snoc discovered_registry)
  qed
qed

section \<open>Lemmas on pairing\<close>

lemma emit_fields:
  "config (emit es s) = config s"
  "secrets (emit es s) = secrets s"
  "devicesOnBridge (emit es s) = devicesOnBridge s"
  "bridge (emit es s) = bridge s"
  "discoveredBridges (emit es s) = discoveredBridges s"
  "trace (emit es s) = trace s @ es"
  by (simp_all add: emit_def)

lemma discovered_trace: "\<exists>l m. trace (discovered e s) = trace s @ [Log l m]"
  by (simp add: discovered_def emit_def)

lemma deliver_trace: "\<exists>es. trace (deliver evs s) = trace s @ es \<and> list_all is_Log es"
proof (induction evs arbitrary: s)
  case Nil
  show ?case by (simp add: deliver_Nil)
next
  case (Cons e evs)
  obtain l m where 1: "trace (discovered e s) = trace s @ [Log l m]"
    using discovered_trace by blast
  obtain es where 2: "trace (deliver evs (discovered e s)) = trace (discovered e s) @ es" "list_all is_Log es"
    using Cons.IH by blast
  show ?case
    using 1 2 by (simp add: deliver_Cons)
qed

lemma waitForButton_logs: "waitForButton lib ms = (logs, r) \<Longrightarrow> list_all is_Log logs"
  by (auto simp: waitForButton_def split: option.splits prod.splits if_splits)

lemma csrFailed_fields:
  "config (csrFailed m s) = config s"
  "secrets (csrFailed m s) = secrets s"
  "devicesOnBridge (csrFailed m s) = devicesOnBridge s"
  "discoveredBridges (csrFailed m s) = discoveredBridges s"
  by (simp_all add: csrFailed_def emit_fields)

lemma assignBridgeID_fields:
  "secrets (assignBridgeID s) = secrets s"
  "devicesOnBridge (assignBridgeID s) = devicesOnBridge s"
  "discoveredBridges (assignBridgeID s) = discoveredBridges s"
  "host (config (assignBridgeID s)) = host (config s)"
  "config (assignBridgeID s) =
     (config s)\<lparr>bridgeID := (if discoveredBridges s (host (config s)) \<noteq> None
                               then discoveredBridges s (host (config s))
                               else Some UNKNOWN_BRIDGE_ID)\<rparr>"
  "trace (assignBridgeID s) =
     trace s @ [Log debug (''using bridge id: '' @ show_optional
                  (if discoveredBridges s (host (config s)) \<noteq> None
                   then discoveredBridges s (host (config s))
                   else Some UNKNOWN_BRIDGE_ID)),
                Log debug ''Storing bridge certificates'']"
  by (simp_all add: assignBridgeID_def Let_def emit_fields)

lemma storeCertificates_fields:
  "config (snd (storeCertificates lib keys r s)) = config (assignBridgeID s)"
  "discoveredBridges (snd (storeCertificates lib keys r s)) = discoveredBridges s"
  "devicesOnBridge (snd (storeCertificates lib keys r s)) = devicesOnBridge s"
  "trace (snd (storeCertificates lib keys r s)) = trace (assignBridgeID s)"
  by (simp_all add: storeCertificates_def Let_def assignBridgeID_fields split: option.splits)

lemma storeCertificates_exit:
  "fst (storeCertificates lib keys r s) = Paired \<or> fst (storeCertificates lib keys r s) = BundleTypeError"
  by (simp add: storeCertificates_def Let_def split: option.splits)

lemma storeCertificates_Paired:
  assumes "fst (storeCertificates lib keys r s) = Paired"
  shows "\<exists>signingResult. SigningResult (Body r) = Some signingResult
         \<and> secrets (snd (storeCertificates lib keys r s)) =
             (secrets s)\<lparr>bridgeCerts := Some
                \<lparr>ca = RootCertificate signingResult,
                 certificate = Certificate signingResult,
                 privateKey = privateKeyToPem lib (keyPairPrivateKey keys)\<rparr>\<rparr>"
  using assms
  by (cases "SigningResult (Body r)")
     (simp_all add: storeCertificates_def Let_def assignBridgeID_fields)

lemma storeCertificates_failure:
  assumes "fst (storeCertificates lib keys r s) \<noteq> Paired"
  shows "secrets (snd (storeCertificates lib keys r s)) = secrets s"
  using assms
  by (cases "SigningResult (Body r)")
     (simp_all add: storeCertificates_def Let_def assignBridgeID_fields)

text \<open>On every exit but completion the secrets, the device list and the host are the ones
  before the run; so is the whole configuration, but for the exit by the
  \<^verbatim>\<open>TypeError\<close>, which comes after the assignment of the bridge id.\<close>

lemma requestCertificate_failure:
  assumes "requestCertificate lib env keys start ms s = (ex, s')" "ex \<noteq> Paired"
  shows "secrets s' = secrets s \<and> devicesOnBridge s' = devicesOnBridge s
       \<and> host (config s') = host (config s)
       \<and> (ex \<noteq> BundleTypeError \<longrightarrow> config s' = config s)"
proof (cases "waitForCertificate start ms")
  case (Rejected m)
  then show ?thesis using assms
    by (auto simp: requestCertificate_def Let_def csrFailed_fields deliver_fields emit_fields)
next
  case (Resolved r)
  let ?s2 = "deliver (discoveredDuring env AwaitCertificate)
               (emit [Log debug ''Sending CSR to bridge for signing'',
                      RequestPair (certificationRequestToPem lib (publicKey keys)
                         ''companion-module-lutron-caseta'' (keyPairPrivateKey keys))] s)"
  show ?thesis
  proof (cases "StatusCode (Header r) = ''200 OK''")
    case False
    then show ?thesis using assms Resolved
      by (auto simp: requestCertificate_def Let_def csrFailed_fields deliver_fields emit_fields)
  next
    case True
    then have eq: "storeCertificates lib keys r ?s2 = (ex, s')"
      using assms(1) Resolved by (simp add: requestCertificate_def Let_def)
    have "ex = BundleTypeError"
      using storeCertificates_exit [of lib keys r ?s2] eq assms(2) by simp
    moreover have "secrets s' = secrets ?s2"
      using storeCertificates_failure [of lib keys r ?s2] eq assms(2) by simp
    moreover have "devicesOnBridge s' = devicesOnBridge ?s2" "config s' = config (assignBridgeID ?s2)"
      using storeCertificates_fields [of lib keys r ?s2] eq by simp_all
    ultimately show ?thesis
      by (simp add: assignBridgeID_fields deliver_fields emit_fields)
  qed
qed

lemma generateKeys_failure:
  assumes "generateKeys lib env t ms s = (ex, s')" "ex \<noteq> Paired"
  shows "secrets s' = secrets s \<and> devicesOnBridge s' = devicesOnBridge s
       \<and> host (config s') = host (config s)
       \<and> (ex \<noteq> BundleTypeError \<longrightarrow> config s' = config s)"
proof (cases "generateKeyPair env")
  case (Inl m)
  then show ?thesis using assms by (auto simp: generateKeys_def Let_def deliver_fields emit_fields)
next
  case (Inr keys)
  then have "requestCertificate lib env keys (t + keygenMillis env) ms
               (deliver (discoveredDuring env AwaitKeys)
                  (emit [Log debug ''Generating keys for CSR'', GenerateKeyPair 2048] s)) = (ex, s')"
    using assms by (simp add: generateKeys_def Let_def)
  from requestCertificate_failure [OF this assms(2)] show ?thesis
    by (simp add: deliver_fields emit_fields)
qed

lemma pairWithBridge_failure:
  assumes "pairWithBridge lib env s = (ex, s')" "ex \<noteq> Paired"
  shows "secrets s' = secrets s \<and> devicesOnBridge s' = devicesOnBridge s
       \<and> host (config s') = host (config s)
       \<and> (ex \<noteq> BundleTypeError \<longrightarrow> config s' = config s)"
proof (cases "pairingConnect env")
  case (Some m)
  then show ?thesis using assms by (auto simp: pairWithBridge_def Let_def deliver_fields emit_fields)
next
  case None
  obtain logs r where w: "waitForButton lib (inbound env) = (logs, r)" by fastforce
  show ?thesis
  proof (cases r)
    case (Rejected m)
    then show ?thesis using assms None w
      by (auto simp: pairWithBridge_def Let_def deliver_fields emit_fields)
  next
    case (Resolved p)
    obtain t rest where p: "p = (t, rest)" by fastforce
    have "generateKeys lib env t rest
            (emit logs (deliver (discoveredDuring env AwaitButton)
               (emit [Log info ''Waiting for button press on bridge...'']
                  (deliver (discoveredDuring env AwaitConnect)
                     (emit [Log debug ''Pairing client connecting'',
                            PairingConnect (host (config s)) PAIRING_PORT] s))))) = (ex, s')"
      using assms None w Resolved p by (simp add: pairWithBridge_def Let_def)
    from generateKeys_failure [OF this assms(2)] show ?thesis
      by (simp add: deliver_fields emit_fields)
  qed
qed

lemma list_all_Log_pairing: "list_all is_Log es \<Longrightarrow> list_all pairing_effect es"
proof (induction es)
  case Nil
  show ?case by simp
next
  case (Cons e es)
  then show ?case by (cases e) simp_all
qed

lemma deliver_trace_pairing:
  "\<exists>es. trace (deliver evs s) = trace s @ es \<and> list_all pairing_effect es"
  using deliver_trace [of evs s] list_all_Log_pairing by blast

lemma csrFailed_trace:
  "trace (csrFailed m s) =
     trace s @ [Log error (''CSR failed: '' @ m), UpdateStatus ConnectionFailure (Some (''CSR failed: '' @ m))]"
  by (simp add: csrFailed_def emit_fields)

lemma storeCertificates_trace:
  "\<exists>es. trace (snd (storeCertificates lib keys r s)) = trace s @ es \<and> list_all pairing_effect es"
  by (simp add: storeCertificates_fields assignBridgeID_fields)

lemma requestCertificate_trace:
  "\<exists>es. trace (snd (requestCertificate lib env keys start ms s)) = trace s @ es
        \<and> list_all pairing_effect es"
proof -
  let ?s1 = "emit [Log debug ''Sending CSR to bridge for signing'',
                   RequestPair (certificationRequestToPem lib (publicKey keys)
                      ''companion-module-lutron-caseta'' (keyPairPrivateKey keys))] s"
  let ?s2 = "deliver (discoveredDuring env AwaitCertificate) ?s1"
  obtain ds where ds: "trace ?s2 = trace ?s1 @ ds" "list_all pairing_effect ds"
    using deliver_trace_pairing by blast
  obtain st where st: "\<And>r. trace (snd (storeCertificates lib keys r ?s2)) = trace ?s2 @ st r"
      "\<And>r. list_all pairing_effect (st r)"
    using storeCertificates_trace [of lib keys _ ?s2] by metis
  show ?thesis
    using ds st
    by (cases "waitForCertificate start ms")
       (auto simp: requestCertificate_def Let_def csrFailed_trace emit_fields)
qed


lemma generateKeys_trace:
  "\<exists>es. trace (snd (generateKeys lib env t ms s)) = trace s @ es \<and> list_all pairing_effect es"
proof -
  let ?s1 = "emit [Log debug ''Generating keys for CSR'', GenerateKeyPair 2048] s"
  let ?s2 = "deliver (discoveredDuring env AwaitKeys) ?s1"
  obtain ds where ds: "trace ?s2 = trace ?s1 @ ds" "list_all pairing_effect ds"
    using deliver_trace_pairing by blast
  show ?thesis
  proof (cases "generateKeyPair env")
    case (Inl m)
    then show ?thesis using ds by (simp add: generateKeys_def Let_def emit_fields)
  next
    case (Inr keys)
    obtain rs where rs:
      "trace (snd (requestCertificate lib env keys (t + keygenMillis env) ms ?s2)) = trace ?s2 @ rs"
      "list_all pairing_effect rs"
      using requestCertificate_trace by blast
    show ?thesis using Inr ds rs by (simp add: generateKeys_def Let_def emit_fields)
  qed
qed

lemma pairWithBridge_trace:
  "\<exists>es. trace (snd (pairWithBridge lib env s)) = trace s @ es
        \<and> PairingConnect (host (config s)) PAIRING_PORT \<in> set es
        \<and> list_all pairing_effect es"
proof -
  let ?s1 = "emit [Log debug ''Pairing client connecting'',
                   PairingConnect (host (config s)) PAIRING_PORT] s"
  let ?s2 = "deliver (discoveredDuring env AwaitConnect) ?s1"
  obtain d1 where d1: "trace ?s2 = trace ?s1 @ d1" "list_all pairing_effect d1"
    using deliver_trace_pairing by blast
  show ?thesis
  proof (cases "pairingConnect env")
    case (Some m)
    then show ?thesis using d1 by (simp add: pairWithBridge_def Let_def emit_fields)
  next
    case None
    let ?s3 = "emit [Log info ''Waiting for button press on bridge...''] ?s2"
    let ?s4 = "deliver (discoveredDuring env AwaitButton) ?s3"
    obtain d2 where d2: "trace ?s4 = trace ?s3 @ d2" "list_all pairing_effect d2"
      using deliver_trace_pairing by blast
    obtain logs r where w: "waitForButton lib (inbound env) = (logs, r)" by fastforce
    have logs: "list_all pairing_effect logs"
      using waitForButton_logs [OF w] by (rule list_all_Log_pairing)
    show ?thesis
    proof (cases r)
      case (Rejected m)
      then show ?thesis using None w d1 d2 logs
        by (simp add: pairWithBridge_def Let_def emit_fields)
    next
      case (Resolved p)
      obtain t rest where p: "p = (t, rest)" by fastforce
      obtain gs where gs:
        "trace (snd (generateKeys lib env t rest (emit logs ?s4))) = trace (emit logs ?s4) @ gs"
        "list_all pairing_effect gs"
        using generateKeys_trace by blast
      show ?thesis using None w Resolved p d1 d2 logs gs
        by (simp add: pairWithBridge_def Let_def emit_fields)
    qed
  qed
qed

lemma pairing_effect_no_SaveConfig:
  "list_all pairing_effect es \<Longrightarrow> SaveConfig c x \<notin> set es"
  by (induction es) auto

lemma pairing_effect_no_LeapConnect:
  "list_all pairing_effect es \<Longrightarrow> LeapConnect h p a k c \<notin> set es"
  by (induction es) auto

lemma is_Log_no_GenerateKeyPair:
  "list_all is_Log es \<Longrightarrow> GenerateKeyPair n \<notin> set es"
  by (induction es) auto

lemma is_Log_no_SaveConfig:
  "list_all is_Log es \<Longrightarrow> SaveConfig c x \<notin> set es"
  by (induction es) auto

lemma waitForButton_unconfirmed:
  assumes "\<forall>(t, m) \<in> set ms. t < 30000 \<longrightarrow> ''PhysicalAccess'' \<notin> set (Permissions (Status (Body m)))"
  shows "\<exists>logs. waitForButton lib ms = (logs, Rejected ''timed out'') \<and> list_all is_Log logs"
proof (cases ms)
  case Nil
  then show ?thesis by (simp add: waitForButton_def)
next
  case (Cons x rest)
  obtain t m where x: "x = (t, m)" by fastforce
  have "t < 30000 \<longrightarrow> ''PhysicalAccess'' \<notin> set (Permissions (Status (Body m)))"
    using assms Cons x by simp
  then show ?thesis using Cons x by (auto simp: waitForButton_def)
qed

lemma deliver_append: "deliver (xs @ ys) s = deliver ys (deliver xs s)"
  by (simp add: deliver_def)

lemma deliver_registry_cong:
  "discoveredBridges s1 = discoveredBridges s2
     \<Longrightarrow> discoveredBridges (deliver evs s1) = discoveredBridges (deliver evs s2)"
  by (rule ext) (simp add: deliver_registry_last)

lemma deliver_emit_registry:
  "discoveredBridges (deliver evs (emit es s)) = discoveredBridges (deliver evs s)"
  by (rule deliver_registry_cong) (simp add: emit_fields)

lemma next_message_mem:
  "next_message start ms = Some ((t, m), rest) \<Longrightarrow> (t, m) \<in> set ms \<and> start \<le> t"
  by (induction ms) (auto split: if_splits)

lemma waitForButton_Resolved:
  assumes "waitForButton lib ms = (logs, Resolved (t, rest))"
  shows "\<exists>m. ms = (t, m) # rest \<and> t < 30000
            \<and> ''PhysicalAccess'' \<in> set (Permissions (Status (Body m)))"
  using assms
  by (cases ms) (auto simp: waitForButton_def split: if_splits)

lemma waitForCertificate_Resolved:
  assumes "waitForCertificate start ms = Resolved r"
  shows "\<exists>t rest. next_message start ms = Some ((t, r), rest) \<and> t < start + 5000"
  using assms
  by (auto simp: waitForCertificate_def split: option.splits if_splits)

text \<open>The runs that reach the end of the function: the completed ones and the ones that
  end by the \<^verbatim>\<open>TypeError\<close>.\<close>

lemma requestCertificate_Paired:
  assumes "fst (requestCertificate lib env keys start ms s) = Paired
         \<or> fst (requestCertificate lib env keys start ms s) = BundleTypeError"
  shows "\<exists>t certResult rest s2.
           next_message start ms = Some ((t, certResult), rest) \<and> t < start + 5000
         \<and> StatusCode (Header certResult) = ''200 OK''
         \<and> requestCertificate lib env keys start ms s = storeCertificates lib keys certResult s2
         \<and> config s2 = config s \<and> secrets s2 = secrets s
         \<and> discoveredBridges s2 = discoveredBridges (deliver (discoveredDuring env AwaitCertificate) s)"
proof (cases "waitForCertificate start ms")
  case (Rejected m)
  then show ?thesis using assms by (simp add: requestCertificate_def Let_def)
next
  case (Resolved r)
  obtain t rest where n: "next_message start ms = Some ((t, r), rest)" "t < start + 5000"
    using waitForCertificate_Resolved [OF Resolved] by blast
  have ok: "StatusCode (Header r) = ''200 OK''"
    using assms Resolved by (auto simp: requestCertificate_def Let_def split: if_splits)
  show ?thesis
    using n ok Resolved
    by (auto simp: requestCertificate_def Let_def deliver_fields emit_fields deliver_emit_registry)
qed

lemma generateKeys_Paired:
  assumes "fst (generateKeys lib env t0 ms s) = Paired
         \<or> fst (generateKeys lib env t0 ms s) = BundleTypeError"
  shows "\<exists>keys t certResult rest s2.
           generateKeyPair env = Inr keys
         \<and> next_message (t0 + keygenMillis env) ms = Some ((t, certResult), rest)
         \<and> t < t0 + keygenMillis env + 5000
         \<and> StatusCode (Header certResult) = ''200 OK''
         \<and> generateKeys lib env t0 ms s = storeCertificates lib keys certResult s2
         \<and> config s2 = config s \<and> secrets s2 = secrets s
         \<and> discoveredBridges s2 =
             discoveredBridges (deliver (discoveredDuring env AwaitKeys
                                          @ discoveredDuring env AwaitCertificate) s)"
proof (cases "generateKeyPair env")
  case (Inl m)
  then show ?thesis using assms by (simp add: generateKeys_def Let_def)
next
  case (Inr keys)
  let ?s2 = "deliver (discoveredDuring env AwaitKeys)
               (emit [Log debug ''Generating keys for CSR'', GenerateKeyPair 2048] s)"
  have eq: "generateKeys lib env t0 ms s
              = requestCertificate lib env keys (t0 + keygenMillis env) ms ?s2"
    using Inr by (simp add: generateKeys_def Let_def)
  have "discoveredBridges ?s2 = discoveredBridges (deliver (discoveredDuring env AwaitKeys) s)"
    by (rule deliver_emit_registry)
  then have reg: "discoveredBridges (deliver (discoveredDuring env AwaitCertificate) ?s2)
        = discoveredBridges (deliver (discoveredDuring env AwaitKeys
                                          @ discoveredDuring env AwaitCertificate) s)"
    unfolding deliver_append by (rule deliver_registry_cong)
  show ?thesis
    using requestCertificate_Paired [of lib env keys "t0 + keygenMillis env" ms ?s2] assms Inr reg
    unfolding eq by (auto simp: deliver_fields emit_fields)
qed

lemma pairWithBridge_Paired:
  assumes "fst (pairWithBridge lib env s) = Paired
         \<or> fst (pairWithBridge lib env s) = BundleTypeError"
  shows "\<exists>t0 confirm rest keys t certResult rest' s2.
           pairingConnect env = None
         \<and> inbound env = (t0, confirm) # rest \<and> t0 < 30000
         \<and> ''PhysicalAccess'' \<in> set (Permissions (Status (Body confirm)))
         \<and> generateKeyPair env = Inr keys
         \<and> next_message (t0 + keygenMillis env) rest = Some ((t, certResult), rest')
         \<and> t < t0 + keygenMillis env + 5000
         \<and> StatusCode (Header certResult) = ''200 OK''
         \<and> pairWithBridge lib env s = storeCertificates lib keys certResult s2
         \<and> config s2 = config s \<and> secrets s2 = secrets s
         \<and> discoveredBridges s2 = discoveredBridges (deliver (discoveredWhilePairing env) s)"
proof (cases "pairingConnect env")
  case (Some m)
  then show ?thesis using assms by (simp add: pairWithBridge_def Let_def)
next
  case None
  let ?s2 = "deliver (discoveredDuring env AwaitConnect)
               (emit [Log debug ''Pairing client connecting'',
                      PairingConnect (host (config s)) PAIRING_PORT] s)"
  let ?s4 = "deliver (discoveredDuring env AwaitButton)
               (emit [Log info ''Waiting for button press on bridge...''] ?s2)"
  obtain logs r where w: "waitForButton lib (inbound env) = (logs, r)" by fastforce
  show ?thesis
  proof (cases r)
    case (Rejected m)
    then show ?thesis using assms None w by (simp add: pairWithBridge_def Let_def)
  next
    case (Resolved p)
    obtain t0 rest where p: "p = (t0, rest)" by fastforce
    obtain confirm where c: "inbound env = (t0, confirm) # rest" "t0 < 30000"
        "''PhysicalAccess'' \<in> set (Permissions (Status (Body confirm)))"
      using waitForButton_Resolved w Resolved p by blast
    have eq: "pairWithBridge lib env s = generateKeys lib env t0 rest (emit logs ?s4)"
      using None w Resolved p by (simp add: pairWithBridge_def Let_def)
    have r2: "discoveredBridges ?s2 = discoveredBridges (deliver (discoveredDuring env AwaitConnect) s)"
      by (rule deliver_emit_registry)
    have "discoveredBridges ?s4
            = discoveredBridges (deliver (discoveredDuring env AwaitButton) ?s2)"
      by (rule deliver_emit_registry)
    also have "\<dots> = discoveredBridges (deliver (discoveredDuring env AwaitConnect
                                              @ discoveredDuring env AwaitButton) s)"
      unfolding deliver_append using r2 by (rule deliver_registry_cong)
    finally have r4: "discoveredBridges (emit logs ?s4)
        = discoveredBridges (deliver (discoveredDuring env AwaitConnect
                                              @ discoveredDuring env AwaitButton) s)"
      by (simp add: emit_fields)
    have reg: "discoveredBridges (deliver (discoveredDuring env AwaitKeys
                                          @ discoveredDuring env AwaitCertificate) (emit logs ?s4))
              = discoveredBridges (deliver (discoveredWhilePairing env) s)"
    proof -
      have "discoveredBridges (deliver (discoveredDuring env AwaitKeys
                                          @ discoveredDuring env AwaitCertificate) (emit logs ?s4))
              = discoveredBridges (deliver (discoveredDuring env AwaitKeys
                                          @ discoveredDuring env AwaitCertificate)
                  (deliver (discoveredDuring env AwaitConnect
                             @ discoveredDuring env AwaitButton) s))"
        using r4 by (rule deliver_registry_cong)
      then show ?thesis
        by (simp only: discoveredWhilePairing_def deliver_append [symmetric] append_assoc)
    qed
    show ?thesis
      using generateKeys_Paired [of lib env t0 rest "emit logs ?s4"] assms c None reg
      unfolding eq by (auto simp: deliver_fields emit_fields)
  qed
qed

lemma effects_sinceI: "trace s' = trace s @ es \<Longrightarrow> effects_since s s' = es"
  by (simp add: effects_since_def)

lemma pairWithBridge_confirmed:
  assumes "pairingConnect env = None"
    and "inbound env = (t0, confirm) # rest" and "t0 < 30000"
    and "''PhysicalAccess'' \<in> set (Permissions (Status (Body confirm)))"
    and "generateKeyPair env = Inr keys"
  shows "\<exists>s2. pairWithBridge lib env s
                 = requestCertificate lib env keys (t0 + keygenMillis env) rest s2
            \<and> config s2 = config s \<and> secrets s2 = secrets s"
proof -
  let ?s4 = "deliver (discoveredDuring env AwaitButton)
               (emit [Log info ''Waiting for button press on bridge...'']
                  (deliver (discoveredDuring env AwaitConnect)
                     (emit [Log debug ''Pairing client connecting'',
                            PairingConnect (host (config s)) PAIRING_PORT] s)))"
  let ?logs = "[Log debug (''got message '' @ JSON_stringify lib confirm),
                Log debug ''Physical access confirmed'']"
  let ?s2 = "deliver (discoveredDuring env AwaitKeys)
               (emit [Log debug ''Generating keys for CSR'', GenerateKeyPair 2048]
                  (emit ?logs ?s4))"
  have w: "waitForButton lib (inbound env) = (?logs, Resolved (t0, rest))"
    using assms(2-4) by (simp add: waitForButton_def)
  have "pairWithBridge lib env s
          = requestCertificate lib env keys (t0 + keygenMillis env) rest ?s2"
    using assms(1,5) w by (simp add: pairWithBridge_def generateKeys_def Let_def)
  moreover have "config ?s2 = config s \<and> secrets ?s2 = secrets s"
    by (simp add: deliver_fields emit_fields)
  ultimately show ?thesis by blast
qed

lemma waitForCertificate_silent:
  assumes "\<forall>(t, m) \<in> set ms. t < start \<or> start + 5000 \<le> t"
  shows "waitForCertificate start ms = Rejected ''CSR response timed out''"
proof (cases "next_message start ms")
  case None
  then show ?thesis by (simp add: waitForCertificate_def)
next
  case (Some a)
  obtain t m rest where a: "a = ((t, m), rest)" by (metis prod.exhaust)
  have "(t, m) \<in> set ms" "start \<le> t"
    using next_message_mem Some a by blast+
  then have "start + 5000 \<le> t" using assms by fastforce
  then show ?thesis using Some a by (simp add: waitForCertificate_def)
qed

lemma requestCertificate_timeout:
  assumes "waitForCertificate start ms = Rejected m"
  shows "fst (requestCertificate lib env keys start ms s) = CsrTimeout
       \<and> UpdateStatus ConnectionFailure (Some (''CSR failed: '' @ m))
           \<in> set (trace (snd (requestCertificate lib env keys start ms s)))"
  using assms by (simp add: requestCertificate_def Let_def csrFailed_trace)

lemma requestCertificate_rejected:
  assumes "next_message start ms = Some ((t, r), rest)" "t < start + 5000"
    "StatusCode (Header r) \<noteq> ''200 OK''"
  shows "fst (requestCertificate lib env keys start ms s) = CsrRejected r
       \<and> UpdateStatus ConnectionFailure
            (Some (''CSR failed: bad CSR response: '' @ JSON_stringify lib r))
           \<in> set (trace (snd (requestCertificate lib env keys start ms s)))"
  using assms
  by (simp add: requestCertificate_def waitForCertificate_def Let_def csrFailed_trace)

lemma pairWithBridge_since:
  "trace (snd (pairWithBridge lib env s))
     = trace s @ effects_since s (snd (pairWithBridge lib env s))
   \<and> list_all pairing_effect (effects_since s (snd (pairWithBridge lib env s)))
   \<and> PairingConnect (host (config s)) PAIRING_PORT
       \<in> set (effects_since s (snd (pairWithBridge lib env s)))"
  using pairWithBridge_trace [of lib env s] by (auto simp: effects_since_def)

section \<open>Lemmas on the connection and the configuration update\<close>

lemma loadDevices_Nil: "loadDevices [] s = s"
  by (simp add: loadDevices_def)

lemma loadDevices_Cons: "loadDevices (d # ds) s = loadDevices ds (loadDevice d s)"
  by (simp add: loadDevices_def)

lemma loadDevices_append: "loadDevices (xs @ ys) s = loadDevices ys (loadDevices xs s)"
  by (simp add: loadDevices_def)

lemma loadDevice_fields:
  "secrets (loadDevice d s) = secrets s"
  "host (config (loadDevice d s)) = host (config s)"
  "discoveredBridges (loadDevice d s) = discoveredBridges s"
  by (cases d; simp add: emit_fields Let_def split: option.splits)+

lemma loadDevice_trace:
  "\<exists>es. trace (loadDevice d s) = trace s @ es \<and> list_all enumeration_effect es"
  by (cases d) (simp_all add: emit_fields Let_def split: option.splits)

lemma loadDevice_devices:
  "\<exists>ds. devicesOnBridge (loadDevice d s) = devicesOnBridge s @ ds"
  by (cases d) (simp_all add: emit_fields Let_def split: option.splits)

lemma loadDevices_fields:
  "secrets (loadDevices ds s) = secrets s"
  "host (config (loadDevices ds s)) = host (config s)"
  "discoveredBridges (loadDevices ds s) = discoveredBridges s"
  by (induction ds arbitrary: s) (simp_all add: loadDevices_Nil loadDevices_Cons loadDevice_fields)

lemma loadDevices_trace:
  "\<exists>es. trace (loadDevices ds s) = trace s @ es \<and> list_all enumeration_effect es"
proof (induction ds arbitrary: s)
  case Nil
  show ?case by (simp add: loadDevices_Nil)
next
  case (Cons d ds)
  obtain e1 where 1: "trace (loadDevice d s) = trace s @ e1" "list_all enumeration_effect e1"
    using loadDevice_trace by blast
  obtain e2 where 2: "trace (loadDevices ds (loadDevice d s)) = trace (loadDevice d s) @ e2"
    "list_all enumeration_effect e2"
    using Cons.IH by blast
  show ?case using 1 2 by (simp add: loadDevices_Cons)
qed

lemma loadDevices_devices:
  "\<exists>added. devicesOnBridge (loadDevices ds s) = devicesOnBridge s @ added"
proof (induction ds arbitrary: s)
  case Nil
  show ?case by (simp add: loadDevices_Nil)
next
  case (Cons d ds)
  obtain a1 where 1: "devicesOnBridge (loadDevice d s) = devicesOnBridge s @ a1"
    using loadDevice_devices by blast
  obtain a2 where 2: "devicesOnBridge (loadDevices ds (loadDevice d s))
                        = devicesOnBridge (loadDevice d s) @ a2"
    using Cons.IH by blast
  show ?case using 1 2 by (simp add: loadDevices_Cons)
qed

text \<open>An enumeration without a control unit: the configuration stays, the devices that have
  an area are appended, and only logs are emitted.\<close>

lemma loadDevices_plain:
  assumes "\<forall>d. Device d \<in> set items \<longrightarrow> DeviceType d \<noteq> ''SmartBridge''"
  shows "config (loadDevices items s) = config s
       \<and> devicesOnBridge (loadDevices items s) = devicesOnBridge s @ devicesWithArea items
       \<and> (\<exists>es. trace (loadDevices items s) = trace s @ es \<and> list_all is_Log es)"
  using assms
proof (induction items arbitrary: s)
  case Nil
  show ?case by (simp add: loadDevices_Nil)
next
  case (Cons item items)
  have rest: "\<forall>d. Device d \<in> set items \<longrightarrow> DeviceType d \<noteq> ''SmartBridge''"
    using Cons.prems by simp
  note IH = Cons.IH [OF rest, of "loadDevice item s"]
  obtain es where es: "trace (loadDevices items (loadDevice item s))
                         = trace (loadDevice item s) @ es" "list_all is_Log es"
    using IH by blast
  show ?case
  proof (cases item)
    case (DeviceError m)
    then show ?thesis using IH es by (simp add: loadDevices_Cons emit_fields)
  next
    case (Device d)
    then have "DeviceType d \<noteq> ''SmartBridge''" using Cons.prems by simp
    then show ?thesis using Device IH es
      by (cases "AssociatedArea d") (simp_all add: loadDevices_Cons emit_fields)
  qed
qed

lemma devicesWithArea_mem: "d \<in> set (devicesWithArea items) \<Longrightarrow> Device d \<in> set items"
proof (induction items)
  case Nil
  then show ?case by simp
next
  case (Cons item items)
  then show ?case by (cases item) (auto split: if_splits)
qed

lemma devicesWithArea_append:
  "devicesWithArea (xs @ ys) = devicesWithArea xs @ devicesWithArea ys"
proof (induction xs)
  case Nil
  show ?case by simp
next
  case (Cons item items)
  then show ?case by (cases item) simp_all
qed

lemma connecting_fields:
  "config (connecting certs s) = config s"
  "secrets (connecting certs s) = secrets s"
  "devicesOnBridge (connecting certs s) = devicesOnBridge s"
  "discoveredBridges (connecting certs s) = discoveredBridges s"
  "trace (connecting certs s) =
     trace s @ [Log debug (''Connecting to bridge with id: '' @ show_optional (bridgeID (config s))),
                UpdateStatus Connecting (Some ''Connecting to Bridge''),
                LeapConnect (host (config s)) LEAP_PORT
                  (ca certs) (privateKey certs) (certificate certs),
                GetDeviceInfo]"
  by (simp_all add: connecting_def emit_def)

lemma connectToBridge_Loaded:
  assumes "\<not> falsy (bridgeID (config s))" "bridgeCerts (secrets s) = Some certs"
    "leapConnect env = None" "getDeviceInfo env = Inr devices"
  shows "connectToBridge env s =
           (Loaded, emit [Log debug ''Loaded'', UpdateStatus Ok None]
                      (loadDevices devices (connecting certs s)))"
  using assms by (simp add: connectToBridge_def connecting_def Let_def emit_fields)

lemma is_Log_SaveConfig_False: "list_all is_Log es \<Longrightarrow> SaveConfig c x \<in> set es \<Longrightarrow> False"
  using is_Log_no_SaveConfig by blast

lemma enumeration_effect_no_LeapConnect:
  "list_all enumeration_effect es \<Longrightarrow> LeapConnect h p a k c \<notin> set es"
  by (induction es) auto

lemma connectToBridge_trace:
  "\<exists>es. trace (snd (connectToBridge env s)) = trace s @ es \<and> offered (config s) (secrets s) es"
proof (cases "falsy (bridgeID (config s))")
  case True
  then show ?thesis
    by (simp add: connectToBridge_def notConfigured_def emit_fields offered_def)
next
  case nf: False
  show ?thesis
  proof (cases "bridgeCerts (secrets s)")
    case None
    then show ?thesis using nf
      by (simp add: connectToBridge_def notConfigured_def emit_fields offered_def)
  next
    case (Some certs)
    note certs = Some
    show ?thesis
    proof (cases "leapConnect env")
      case (Some m)
      then show ?thesis using nf certs
        by (simp add: connectToBridge_def Let_def emit_fields offered_def)
    next
      case None
      show ?thesis
      proof (cases "getDeviceInfo env")
        case (Inl m)
        then show ?thesis using nf None certs
          by (simp add: connectToBridge_def Let_def emit_fields offered_def)
      next
        case (Inr devices)
        obtain es where es: "trace (loadDevices devices (connecting certs s))
                               = trace (connecting certs s) @ es"
            "list_all enumeration_effect es"
          using loadDevices_trace by blast
        have no: "\<And>h p a k c. LeapConnect h p a k c \<notin> set es"
          using es(2) by (rule enumeration_effect_no_LeapConnect)
        have run: "connectToBridge env s =
               (Loaded, emit [Log debug ''Loaded'', UpdateStatus Ok None]
                          (loadDevices devices (connecting certs s)))"
          using connectToBridge_Loaded [OF nf certs None Inr] .
        show ?thesis
          unfolding run using es(1) no certs
          by (simp add: emit_fields connecting_fields offered_def)
      qed
    qed
  qed
qed

lemma connectToBridge_secrets: "secrets (snd (connectToBridge env s)) = secrets s"
  by (simp add: connectToBridge_def notConfigured_def Let_def emit_fields loadDevices_fields
        split: option.splits sum.splits)

lemma offered_wrap:
  assumes "offered cfg secs es"
    and "\<And>h p a k c. LeapConnect h p a k c \<notin> set pre"
    and "\<And>h p a k c. LeapConnect h p a k c \<notin> set post"
  shows "offered cfg secs (pre @ es @ post)"
  using assms unfolding offered_def by auto

lemma offered_skipped:
  assumes "bridgeCerts secs = None" and "\<And>h p a k c. LeapConnect h p a k c \<notin> set es"
  shows "offered cfg secs es"
  using assms unfolding offered_def by auto

lemma init_secrets: "secrets (snd (init cfg secs env s)) = secs"
proof -
  let ?s3 = "startDiscovery (emit [Log debug ''Starting bridge discovery'',
               UpdateStatus Connecting (Some ''Initializing'')]
               (s\<lparr>config := cfg, secrets := secs\<rparr>))"
  have s3: "secrets ?s3 = secs"
    by (simp add: startDiscovery_def emit_fields)
  obtain ex s4 where c: "connectToBridge env ?s3 = (ex, s4)" by fastforce
  have "secrets s4 = secs"
    using connectToBridge_secrets [of env ?s3] c s3 by simp
  then show ?thesis
    using c s3
    by (cases ex) (simp_all add: init_def Let_def exportDefinitions_def emit_fields)
qed

lemma init_trace:
  "\<exists>es. trace (snd (init cfg secs env s)) = trace s @ es \<and> offered cfg secs es"
proof -
  let ?pre = "[Log debug ''Starting bridge discovery'',
               UpdateStatus Connecting (Some ''Initializing''), BeginSearching]"
  let ?s3 = "startDiscovery (emit [Log debug ''Starting bridge discovery'',
               UpdateStatus Connecting (Some ''Initializing'')]
               (s\<lparr>config := cfg, secrets := secs\<rparr>))"
  have s3: "config ?s3 = cfg" "secrets ?s3 = secs" "trace ?s3 = trace s @ ?pre"
    by (simp_all add: startDiscovery_def emit_fields)
  show ?thesis
  proof (cases "bridgeCerts secs")
    case None
    have "offered cfg secs (?pre @ [UpdateActions, UpdateFeedbacks, UpdateVariableDefinitions])"
      using None by (intro offered_skipped) simp_all
    then show ?thesis using None s3
      by (simp add: init_def Let_def exportDefinitions_def emit_fields)
  next
    case (Some certs)
    obtain es where es: "trace (snd (connectToBridge env ?s3)) = trace ?s3 @ es"
        "offered cfg secs es"
      using connectToBridge_trace [of env ?s3] s3 by auto
    have o1: "offered cfg secs (?pre @ es @ [])"
      using es(2) by (intro offered_wrap) simp_all
    have o2: "offered cfg secs
                (?pre @ es @ [UpdateActions, UpdateFeedbacks, UpdateVariableDefinitions])"
      using es(2) by (intro offered_wrap) simp_all
    obtain ex s4 where c: "connectToBridge env ?s3 = (ex, s4)" by fastforce
    have t4: "trace s4 = trace s @ ?pre @ es" using es(1) c s3(3) by simp
    show ?thesis
    proof (cases "\<exists>m. ex = EnumerationFailed m")
      case True
      then obtain m where "ex = EnumerationFailed m" by blast
      then have "snd (init cfg secs env s) = s4"
        using Some c s3 by (simp add: init_def Let_def)
      then show ?thesis using t4 o1 by simp
    next
      case False
      then have "snd (init cfg secs env s) = exportDefinitions s4"
        using Some c s3 by (cases ex) (simp_all add: init_def Let_def)
      then show ?thesis using t4 o2 by (simp add: exportDefinitions_def emit_fields)
    qed
  qed
qed

lemma reinitialize_secrets: "secrets (snd (reinitialize benv s)) = secrets s"
  by (simp add: reinitialize_def Let_def init_secrets emit_fields)

lemma reinitialize_trace:
  "\<exists>es. trace (snd (reinitialize benv s))
           = trace s @ [SaveConfig (config s) (secrets s), Log debug ''re-initializing module''] @ es
        \<and> offered (config s) (secrets s) es"
proof -
  let ?s1 = "emit [SaveConfig (config s) (secrets s), Log debug ''re-initializing module''] s"
  obtain es where "trace (snd (init (config s) (secrets s) benv ?s1)) = trace ?s1 @ es"
      "offered (config s) (secrets s) es"
    using init_trace by blast
  then show ?thesis by (simp add: reinitialize_def Let_def emit_fields)
qed

lemma beforePairing_fields:
  "config (beforePairing cfg secs s) = cfg"
  "secrets (beforePairing cfg secs s) = secs"
  "devicesOnBridge (beforePairing cfg secs s) = devicesOnBridge s"
  "trace (beforePairing cfg secs s) =
     trace s @ [Log debug ''host changed'',
                UpdateStatus Connecting (Some ''Pairing with Bridge''),
                Log info ''pairing...'']"
  by (simp_all add: beforePairing_def emit_fields)

text \<open>The run of \<^verbatim>\<open>configUpdated\<close> after a change of host, split at the return of
  \<^verbatim>\<open>pairWithBridge\<close>.\<close>

lemma configUpdated_host_changed:
  assumes "host cfg \<noteq> host (config s)"
  shows "\<exists>pairing post.
           trace (snd (pairWithBridge lib penv (beforePairing cfg secs s)))
             = trace (beforePairing cfg secs s) @ pairing
         \<and> PairingConnect (host cfg) PAIRING_PORT \<in> set pairing
         \<and> list_all pairing_effect pairing
         \<and> trace (snd (configUpdated lib cfg secs penv benv s))
             = trace (beforePairing cfg secs s) @ pairing @ post
         \<and> (thrown (fst (pairWithBridge lib penv (beforePairing cfg secs s))) \<noteq> None
               \<longrightarrow> post = []
                 \<and> snd (configUpdated lib cfg secs penv benv s)
                     = snd (pairWithBridge lib penv (beforePairing cfg secs s)))
         \<and> (thrown (fst (pairWithBridge lib penv (beforePairing cfg secs s))) = None
               \<longrightarrow> (\<exists>es. post = [SaveConfig
                                   (config (snd (pairWithBridge lib penv (beforePairing cfg secs s))))
                                   (secrets (snd (pairWithBridge lib penv (beforePairing cfg secs s)))),
                                 Log debug ''re-initializing module''] @ es
                         \<and> offered
                             (config (snd (pairWithBridge lib penv (beforePairing cfg secs s))))
                             (secrets (snd (pairWithBridge lib penv (beforePairing cfg secs s))))
                             es)
                 \<and> secrets (snd (configUpdated lib cfg secs penv benv s))
                     = secrets (snd (pairWithBridge lib penv (beforePairing cfg secs s))))"
proof -
  let ?s0 = "beforePairing cfg secs s"
  obtain ex s1 where pw: "pairWithBridge lib penv ?s0 = (ex, s1)" by fastforce
  obtain pairing where p: "trace s1 = trace ?s0 @ pairing"
      "PairingConnect (host cfg) PAIRING_PORT \<in> set pairing" "list_all pairing_effect pairing"
    using pairWithBridge_trace [of lib penv ?s0] pw by (auto simp: beforePairing_fields)
  show ?thesis
  proof (cases "thrown ex")
    case (Some m)
    then have "snd (configUpdated lib cfg secs penv benv s) = s1"
      using assms pw by (simp add: configUpdated_def Let_def)
    then show ?thesis using p pw Some
      by (intro exI [of _ pairing] exI [of _ "[]"]) simp
  next
    case None
    then have cu: "configUpdated lib cfg secs penv benv s = reinitialize benv s1"
      using assms pw by (simp add: configUpdated_def Let_def)
    obtain es where es: "trace (snd (reinitialize benv s1))
           = trace s1 @ [SaveConfig (config s1) (secrets s1), Log debug ''re-initializing module''] @ es"
        "offered (config s1) (secrets s1) es"
      using reinitialize_trace by blast
    show ?thesis
      using p pw None es cu reinitialize_secrets [of benv s1]
      by (intro exI [of _ pairing]
            exI [of _ "[SaveConfig (config s1) (secrets s1), Log debug ''re-initializing module''] @ es"])
         simp
  qed
qed

text \<open>A connection with the sentinel as identity and one control unit in the enumeration:
  the identity becomes the serial number of the unit, the configuration is saved with it,
  and the devices the connection appends are the other devices that have an area.\<close>

lemma connectToBridge_resolves_identity:
  assumes "bridgeCerts (secrets s) = Some certs"
    and "bridgeID (config s) = Some UNKNOWN_BRIDGE_ID"
    and "leapConnect env = None"
    and "getDeviceInfo env = Inr (before @ Device unit # after)"
    and "DeviceType unit = ''SmartBridge''" and "SerialNumber unit = X"
    and "\<forall>d. Device d \<in> set (before @ after) \<longrightarrow> DeviceType d \<noteq> ''SmartBridge''"
  shows "fst (connectToBridge env s) = Loaded
       \<and> config (snd (connectToBridge env s)) = (config s)\<lparr>bridgeID := Some X\<rparr>
       \<and> trace (snd (connectToBridge env s))
           = trace s @ effects_since s (snd (connectToBridge env s))
       \<and> SaveConfig ((config s)\<lparr>bridgeID := Some X\<rparr>) (secrets s)
           \<in> set (effects_since s (snd (connectToBridge env s)))
       \<and> (\<forall>c x. SaveConfig c x \<in> set (effects_since s (snd (connectToBridge env s)))
                  \<longrightarrow> bridgeID c = Some X)
       \<and> devicesOnBridge (snd (connectToBridge env s))
           = devicesOnBridge s @ devicesWithArea (before @ after)
       \<and> unit \<notin> set (devicesWithArea (before @ after))
       \<and> (unit \<notin> set (devicesOnBridge s)
            \<longrightarrow> unit \<notin> set (devicesOnBridge (snd (connectToBridge env s))))"
proof -
  let ?c = "connecting certs s"
  let ?b = "loadDevices before ?c"
  let ?u = "loadDevice (Device unit) ?b"
  let ?a = "loadDevices after ?u"
  let ?cfg = "(config s)\<lparr>bridgeID := Some X\<rparr>"
  have nf: "\<not> falsy (bridgeID (config s))"
    using assms(2) by (simp add: falsy_def UNKNOWN_BRIDGE_ID_def)
  have run: "connectToBridge env s =
               (Loaded, emit [Log debug ''Loaded'', UpdateStatus Ok None] ?a)"
    using connectToBridge_Loaded [OF nf assms(1,3,4)]
    by (simp add: loadDevices_append loadDevices_Cons)
  have pb: "\<forall>d. Device d \<in> set before \<longrightarrow> DeviceType d \<noteq> ''SmartBridge''"
    and pa: "\<forall>d. Device d \<in> set after \<longrightarrow> DeviceType d \<noteq> ''SmartBridge''"
    using assms(7) by auto
  obtain eb where b: "config ?b = config s"
      "devicesOnBridge ?b = devicesOnBridge s @ devicesWithArea before"
      "trace ?b = trace ?c @ eb" "list_all is_Log eb"
    using loadDevices_plain [OF pb, of ?c] by (auto simp: connecting_fields)
  have sb: "secrets ?b = secrets s"
    by (simp add: loadDevices_fields connecting_fields)
  have u: "config ?u = ?cfg" "devicesOnBridge ?u = devicesOnBridge ?b"
      "trace ?u = trace ?b @ [SaveConfig ?cfg (secrets s)]"
    using assms(2,5,6) b(1) sb by (simp_all add: Let_def emit_fields)
  obtain ea where a: "config ?a = ?cfg"
      "devicesOnBridge ?a = devicesOnBridge ?u @ devicesWithArea after"
      "trace ?a = trace ?u @ ea" "list_all is_Log ea"
    using loadDevices_plain [OF pa, of ?u] u(1) by auto
  let ?es = "[Log debug (''Connecting to bridge with id: '' @ show_optional (bridgeID (config s))),
              UpdateStatus Connecting (Some ''Connecting to Bridge''),
              LeapConnect (host (config s)) LEAP_PORT (ca certs) (privateKey certs) (certificate certs),
              GetDeviceInfo] @ eb @ [SaveConfig ?cfg (secrets s)] @ ea
              @ [Log debug ''Loaded'', UpdateStatus Ok None]"
  have tr: "trace (snd (connectToBridge env s)) = trace s @ ?es"
    unfolding run using a(3) u(3) b(3) by (simp add: emit_fields connecting_fields)
  have since: "effects_since s (snd (connectToBridge env s)) = ?es"
    using tr by (rule effects_sinceI)
  have only: "bridgeID c = Some X" if "SaveConfig c x \<in> set ?es" for c x
    using that is_Log_SaveConfig_False [OF b(4)] is_Log_SaveConfig_False [OF a(4)] by auto
  have notin: "unit \<notin> set (devicesWithArea (before @ after))"
    using devicesWithArea_mem [of unit "before @ after"] assms(5,7) by blast
  have dev: "devicesOnBridge (snd (connectToBridge env s))
               = devicesOnBridge s @ devicesWithArea (before @ after)"
    unfolding run using a(2) u(2) b(2) by (simp add: emit_fields devicesWithArea_append)
  have cfg: "config (snd (connectToBridge env s)) = ?cfg"
    unfolding run using a(1) by (simp add: emit_fields)
  have fstL: "fst (connectToBridge env s) = Loaded"
    unfolding run by simp
  have mem: "SaveConfig ?cfg (secrets s) \<in> set (effects_since s (snd (connectToBridge env s)))"
    unfolding since by simp
  have only': "\<forall>c x. SaveConfig c x \<in> set (effects_since s (snd (connectToBridge env s)))
                  \<longrightarrow> bridgeID c = Some X"
    unfolding since using only by blast
  have carried: "unit \<notin> set (devicesOnBridge s)
            \<longrightarrow> unit \<notin> set (devicesOnBridge (snd (connectToBridge env s)))"
    using dev notin by simp
  have tr': "trace (snd (connectToBridge env s))
               = trace s @ effects_since s (snd (connectToBridge env s))"
    unfolding since by (rule tr)
  show ?thesis
    by (intro conjI) (rule fstL cfg tr' mem only' dev notin carried)+
qed

text \<open>The exits of \<^verbatim>\<open>pairWithBridge\<close> before the end of the function (failed connect, timeout
  of the wait for the button, failed key generation, CSR timeout and rejection) leave the
  secrets and the configuration as they were; after a change of host with such an exit,
  every session of the update is opened to the new host with the bundle handed to
  \<^verbatim>\<open>configUpdated\<close>.\<close>

lemma listed_failures_keep_old_bundle:
  "(fst (pairWithBridge lib penv s0) \<noteq> Paired
        \<and> fst (pairWithBridge lib penv s0) \<noteq> BundleTypeError
      \<longrightarrow> secrets (snd (pairWithBridge lib penv s0)) = secrets s0
        \<and> config (snd (pairWithBridge lib penv s0)) = config s0)
   \<and> (host cfg \<noteq> host (config s)
        \<and> fst (pairWithBridge lib penv (beforePairing cfg secs s)) \<noteq> Paired
        \<and> fst (pairWithBridge lib penv (beforePairing cfg secs s)) \<noteq> BundleTypeError
      \<longrightarrow> secrets (snd (configUpdated lib cfg secs penv benv s)) = secs
        \<and> trace (snd (configUpdated lib cfg secs penv benv s))
            = trace s @ effects_since s (snd (configUpdated lib cfg secs penv benv s))
        \<and> (\<forall>h p a k c.
              LeapConnect h p a k c
                \<in> set (effects_since s (snd (configUpdated lib cfg secs penv benv s)))
              \<longrightarrow> h = host cfg
                \<and> bridgeCerts secs = Some \<lparr>ca = a, certificate = c, privateKey = k\<rparr>)
        \<and> (thrown (fst (pairWithBridge lib penv (beforePairing cfg secs s))) = None
            \<longrightarrow> SaveConfig cfg secs
                  \<in> set (effects_since s (snd (configUpdated lib cfg secs penv benv s)))
              \<and> (\<forall>certs. \<not> falsy (bridgeID cfg) \<and> bridgeCerts secs = Some certs
                    \<longrightarrow> LeapConnect (host cfg) LEAP_PORT
                          (ca certs) (privateKey certs) (certificate certs)
                        \<in> set (effects_since s (snd (configUpdated lib cfg secs penv benv s))))))"
proof (intro conjI impI)
  assume "fst (pairWithBridge lib penv s0) \<noteq> Paired
        \<and> fst (pairWithBridge lib penv s0) \<noteq> BundleTypeError"
  then have "config (snd (pairWithBridge lib penv s0)) = config s0
           \<and> secrets (snd (pairWithBridge lib penv s0)) = secrets s0"
    using pairWithBridge_failure [of lib penv s0 "fst (pairWithBridge lib penv s0)"
                                    "snd (pairWithBridge lib penv s0)"]
    by simp
  then show "secrets (snd (pairWithBridge lib penv s0)) = secrets s0"
    and "config (snd (pairWithBridge lib penv s0)) = config s0"
    by simp_all
next
  let ?s0 = "beforePairing cfg secs s"
  let ?pw = "pairWithBridge lib penv ?s0"
  let ?cu = "configUpdated lib cfg secs penv benv s"
  let ?pre = "[Log debug ''host changed'',
               UpdateStatus Connecting (Some ''Pairing with Bridge''),
               Log info ''pairing...'']"
  assume a: "host cfg \<noteq> host (config s) \<and> fst ?pw \<noteq> Paired \<and> fst ?pw \<noteq> BundleTypeError"
  have kept: "config (snd ?pw) = cfg" "secrets (snd ?pw) = secs"
    using pairWithBridge_failure [of lib penv ?s0 "fst ?pw" "snd ?pw"] a
    by (simp_all add: beforePairing_fields)
  obtain pairing post where
    r: "list_all pairing_effect pairing"
       "trace (snd ?cu) = trace ?s0 @ pairing @ post"
       "thrown (fst ?pw) \<noteq> None \<longrightarrow> post = [] \<and> snd ?cu = snd ?pw"
       "thrown (fst ?pw) = None
          \<longrightarrow> (\<exists>es. post = [SaveConfig (config (snd ?pw)) (secrets (snd ?pw)),
                             Log debug ''re-initializing module''] @ es
                    \<and> offered (config (snd ?pw)) (secrets (snd ?pw)) es)
            \<and> secrets (snd ?cu) = secrets (snd ?pw)"
    using configUpdated_host_changed [OF conjunct1 [OF a], of lib penv secs benv]
    by (elim exE conjE) (rule that)
  have tr: "trace (snd ?cu) = trace s @ ?pre @ pairing @ post"
    using r(2) by (simp add: beforePairing_fields)
  have since: "effects_since s (snd ?cu) = ?pre @ pairing @ post"
    using tr by (rule effects_sinceI)
  have nopair: "\<And>h p a k c. LeapConnect h p a k c \<notin> set pairing"
    using r(1) by (rule pairing_effect_no_LeapConnect)
  show "secrets (snd ?cu) = secs"
    using r(3,4) kept by metis
  show "trace (snd ?cu) = trace s @ effects_since s (snd ?cu)"
    unfolding since by (rule tr)
  show "\<forall>h p a k c. LeapConnect h p a k c \<in> set (effects_since s (snd ?cu))
          \<longrightarrow> h = host cfg \<and> bridgeCerts secs = Some \<lparr>ca = a, certificate = c, privateKey = k\<rparr>"
  proof (cases "thrown (fst ?pw) \<noteq> None")
    case True
    then have "post = []" using r(3) by blast
    then show ?thesis unfolding since using nopair by simp
  next
    case False
    then obtain es where es: "post = [SaveConfig cfg secs, Log debug ''re-initializing module''] @ es"
        "offered cfg secs es"
      using r(4) kept by auto
    show ?thesis unfolding since es(1) using nopair es(2) by (auto simp: offered_def)
  qed
  show "SaveConfig cfg secs \<in> set (effects_since s (snd ?cu))"
    if "thrown (fst ?pw) = None"
    using r(4) that kept unfolding since by auto
  show "\<forall>certs. \<not> falsy (bridgeID cfg) \<and> bridgeCerts secs = Some certs
          \<longrightarrow> LeapConnect (host cfg) LEAP_PORT (ca certs) (privateKey certs) (certificate certs)
                \<in> set (effects_since s (snd ?cu))"
    if nk: "thrown (fst ?pw) = None"
  proof -
    obtain es where es: "post = [SaveConfig cfg secs, Log debug ''re-initializing module''] @ es"
        "offered cfg secs es"
      using r(4) nk kept by auto
    show ?thesis unfolding since es(1) using es(2) by (auto simp: offered_def)
  qed
qed

section \<open>Claims\<close>

text \<open>
  C1 (evaluation of the code). A message without the physical-access permission arrives
  after 1 second, a confirming message after 2 seconds and the signed certificate after
  3.5 seconds, all inside the 30 second window. The listener was registered with
  \<^verbatim>\<open>once\<close>: it runs for the first message, logs it as unexpected, and is gone; the
  confirming message is never handled and pairing ends by the timeout. Without the first
  message the same run completes.
\<close>

theorem C1_later_confirmation_is_not_handled:
  "fst (pairWithBridge example_library
         (pairing_run [(1000, status_message [''Public'']),
                       (2000, status_message [''Public'', ''PhysicalAccess'']),
                       (3500, signing_message ''200 OK'' ''new root'' ''new certificate'')])
         paired_instance) = PairingTimeout
   \<and> trace (snd (pairWithBridge example_library
         (pairing_run [(1000, status_message [''Public'']),
                       (2000, status_message [''Public'', ''PhysicalAccess'']),
                       (3500, signing_message ''200 OK'' ''new root'' ''new certificate'')])
         paired_instance)) =
      [Log debug ''Pairing client connecting'',
       PairingConnect ''192.168.1.50'' 8083,
       Log info ''Waiting for button press on bridge...'',
       Log debug ''got message 200 OK'',
       Log debug ''unexpected pairing result 200 OK'',
       Log error ''waiting for button push failed. Error: timed out'',
       UpdateStatus ConnectionFailure (Some ''Pairing timed out: timed out'')]
   \<and> fst (pairWithBridge example_library
         (pairing_run [(2000, status_message [''Public'', ''PhysicalAccess'']),
                       (3500, signing_message ''200 OK'' ''new root'' ''new certificate'')])
         paired_instance) = Paired"
  by (simp add: pairWithBridge_def generateKeys_def requestCertificate_def waitForButton_def
        waitForCertificate_def storeCertificates_def pairing_run_def status_message_def
        signing_message_def example_library_def paired_instance_def paired_config_def
        constructor_def emit_def deliver_def PAIRING_PORT_def Let_def)

text \<open>
  C2. For every run of \<^verbatim>\<open>pairWithBridge\<close>: when it does not complete, the stored secrets
  are the ones before the run; when it completes, the stored bundle has all three fields
  from this one run: the root certificate and the client certificate of the bridge's
  \<^verbatim>\<open>200 OK\<close> response and the PEM of the private key generated in this run. The run itself
  saves nothing. The secrets hold either no bundle or a record with all three fields at
  every moment, as \<^verbatim>\<open>bridgeCerts?: BridgeCerts\<close> is one optional object that the code
  assigns whole.
\<close>

theorem C2_bundle_all_or_nothing:
  "(fst (pairWithBridge lib env s) \<noteq> Paired
      \<longrightarrow> secrets (snd (pairWithBridge lib env s)) = secrets s)
   \<and> (fst (pairWithBridge lib env s) = Paired
      \<longrightarrow> (\<exists>keys t certResult signingResult.
             generateKeyPair env = Inr keys
           \<and> (t, certResult) \<in> set (inbound env)
           \<and> StatusCode (Header certResult) = ''200 OK''
           \<and> SigningResult (Body certResult) = Some signingResult
           \<and> secrets (snd (pairWithBridge lib env s)) =
               (secrets s)\<lparr>bridgeCerts := Some
                  \<lparr>ca = RootCertificate signingResult,
                   certificate = Certificate signingResult,
                   privateKey = privateKeyToPem lib (keyPairPrivateKey keys)\<rparr>\<rparr>))
   \<and> trace (snd (pairWithBridge lib env s))
       = trace s @ effects_since s (snd (pairWithBridge lib env s))
   \<and> (\<forall>c x. SaveConfig c x \<notin> set (effects_since s (snd (pairWithBridge lib env s))))"
proof (intro conjI impI)
  assume "fst (pairWithBridge lib env s) \<noteq> Paired"
  then show "secrets (snd (pairWithBridge lib env s)) = secrets s"
    using pairWithBridge_failure [of lib env s "fst (pairWithBridge lib env s)"
                                    "snd (pairWithBridge lib env s)"]
    by simp
next
  assume ok: "fst (pairWithBridge lib env s) = Paired"
  obtain t0 confirm rest keys t certResult rest' s2 where
    r: "inbound env = (t0, confirm) # rest" "generateKeyPair env = Inr keys"
       "next_message (t0 + keygenMillis env) rest = Some ((t, certResult), rest')"
       "StatusCode (Header certResult) = ''200 OK''"
       "pairWithBridge lib env s = storeCertificates lib keys certResult s2"
       "secrets s2 = secrets s"
    using pairWithBridge_Paired [OF disjI1 [OF ok]] by blast
  have mem: "(t, certResult) \<in> set (inbound env)"
    using next_message_mem [OF r(3)] r(1) by simp
  have "fst (storeCertificates lib keys certResult s2) = Paired"
    using ok r(5) by simp
  then obtain signingResult where
    st: "SigningResult (Body certResult) = Some signingResult"
        "secrets (snd (storeCertificates lib keys certResult s2)) =
             (secrets s2)\<lparr>bridgeCerts := Some
                \<lparr>ca = RootCertificate signingResult,
                 certificate = Certificate signingResult,
                 privateKey = privateKeyToPem lib (keyPairPrivateKey keys)\<rparr>\<rparr>"
    using storeCertificates_Paired by blast
  show "\<exists>keys t certResult signingResult.
             generateKeyPair env = Inr keys
           \<and> (t, certResult) \<in> set (inbound env)
           \<and> StatusCode (Header certResult) = ''200 OK''
           \<and> SigningResult (Body certResult) = Some signingResult
           \<and> secrets (snd (pairWithBridge lib env s)) =
               (secrets s)\<lparr>bridgeCerts := Some
                  \<lparr>ca = RootCertificate signingResult,
                   certificate = Certificate signingResult,
                   privateKey = privateKeyToPem lib (keyPairPrivateKey keys)\<rparr>\<rparr>"
    using r(2,4,6) mem st unfolding r(5) by auto
next
  obtain es where es: "trace (snd (pairWithBridge lib env s)) = trace s @ es"
      "list_all pairing_effect es"
    using pairWithBridge_trace by blast
  show "trace (snd (pairWithBridge lib env s))
       = trace s @ effects_since s (snd (pairWithBridge lib env s))"
    using es(1) by (simp add: effects_since_def)
  show "\<forall>c x. SaveConfig c x \<notin> set (effects_since s (snd (pairWithBridge lib env s)))"
    using es pairing_effect_no_SaveConfig by (simp add: effects_since_def)
qed

theorem C2_bundle_witness:
  "fst (pairWithBridge example_library
          (pairing_run [(1000, status_message [''Public'', ''PhysicalAccess'']),
                        (2500, signing_message ''200 OK'' ''new root'' ''new certificate'')])
          paired_instance) = Paired
   \<and> secrets (snd (pairWithBridge example_library
          (pairing_run [(1000, status_message [''Public'', ''PhysicalAccess'']),
                        (2500, signing_message ''200 OK'' ''new root'' ''new certificate'')])
          paired_instance)) =
       \<lparr>bridgeCerts = Some \<lparr>ca = ''new root'', certificate = ''new certificate'',
                             privateKey = ''new private key''\<rparr>\<rparr>
   \<and> fst (pairWithBridge example_library
          (pairing_run [(1000, status_message [''Public'', ''PhysicalAccess'']),
                        (2500, signing_message ''401 Unauthorized'' ''new root'' [])])
          paired_instance) = CsrRejected (signing_message ''401 Unauthorized'' ''new root'' [])
   \<and> secrets (snd (pairWithBridge example_library
          (pairing_run [(1000, status_message [''Public'', ''PhysicalAccess'']),
                        (2500, signing_message ''401 Unauthorized'' ''new root'' [])])
          paired_instance)) = \<lparr>bridgeCerts = Some old_certs\<rparr>"
proof -
  let ?ok = "pairing_run [(1000, status_message [''Public'', ''PhysicalAccess'']),
                          (2500, signing_message ''200 OK'' ''new root'' ''new certificate'')]"
  let ?bad = "pairing_run [(1000, status_message [''Public'', ''PhysicalAccess'']),
                           (2500, signing_message ''401 Unauthorized'' ''new root'' [])]"
  have p1: "fst (pairWithBridge example_library ?ok paired_instance) = Paired"
    by (simp add: pairWithBridge_def generateKeys_def requestCertificate_def waitForButton_def
          waitForCertificate_def storeCertificates_def pairing_run_def status_message_def
          signing_message_def Let_def)
  have p2: "fst (pairWithBridge example_library ?bad paired_instance)
              = CsrRejected (signing_message ''401 Unauthorized'' ''new root'' [])"
    by (simp add: pairWithBridge_def generateKeys_def requestCertificate_def waitForButton_def
          waitForCertificate_def storeCertificates_def pairing_run_def status_message_def
          signing_message_def Let_def)
  have s0: "secrets paired_instance = \<lparr>bridgeCerts = Some old_certs\<rparr>"
    by (simp add: paired_instance_def constructor_def)
  have new: "secrets (snd (pairWithBridge example_library ?ok paired_instance)) =
       \<lparr>bridgeCerts = Some \<lparr>ca = ''new root'', certificate = ''new certificate'',
                             privateKey = ''new private key''\<rparr>\<rparr>"
    by (simp add: pairWithBridge_def generateKeys_def requestCertificate_def waitForButton_def
          waitForCertificate_def storeCertificates_def assignBridgeID_def pairing_run_def status_message_def
          signing_message_def example_keys_def example_library_def paired_instance_def
          constructor_def emit_def deliver_def Let_def)
  have old: "secrets (snd (pairWithBridge example_library ?bad paired_instance))
               = \<lparr>bridgeCerts = Some old_certs\<rparr>"
    using C2_bundle_all_or_nothing [of example_library ?bad paired_instance] p2 s0
    by simp
  show ?thesis using p1 p2 new old by blast
qed

text \<open>
  C3 (evaluation of the code). A new instance connects and the bridge enumerates one
  dimmer; the configuration is then saved again with the same host, and the second
  connection enumerates one remote only. \<^verbatim>\<open>connectToBridge\<close> pushes onto
  \<^verbatim>\<open>devicesOnBridge\<close>, which only the constructor empties, so the device list after the
  second connection still starts with the dimmer of the first one.
\<close>

theorem C3_devices_carried_over:
  "fst (init paired_config stored (enumeration [Device dimmer]) paired_instance) = Returned
   \<and> devicesOnBridge connected_instance = [dimmer]
   \<and> fst (configUpdated example_library paired_config stored (pairing_run [])
             (enumeration [Device pico]) connected_instance) = Returned
   \<and> devicesOnBridge (snd (configUpdated example_library paired_config stored (pairing_run [])
             (enumeration [Device pico]) connected_instance)) = [dimmer, pico]"
  by (simp add: connected_instance_def configUpdated_def reinitialize_def init_def
        connectToBridge_def loadDevices_def startDiscovery_def exportDefinitions_def
        enumeration_def paired_instance_def paired_config_def stored_def constructor_def
        falsy_def emit_def dimmer_def pico_def UNKNOWN_BRIDGE_ID_def Let_def)

text \<open>
  C4 (evaluation of the code). An instance with the concrete identity \<^verbatim>\<open>0A1B2C3D\<close> connects;
  the identity is not the sentinel, so the control unit, which has an area, is pushed onto
  the device list with the dimmer. The host is then changed; pairing with the new host
  completes, the registry has no entry for it, and the identity becomes the sentinel with
  the new bundle stored. The connection that follows enumerates the control unit with
  serial number \<^verbatim>\<open>0A1B2C3D\<close>: the identity becomes that serial number and the unit is not
  pushed, but the device list is never emptied, so the control unit of the first
  connection is still in it.
\<close>

theorem C4_control_unit_still_listed:
  "devicesOnBridge unit_listed_instance = [control_unit, dimmer]
   \<and> fst (pairWithBridge example_library completed_pairing
            (beforePairing moved_config stored unit_listed_instance)) = Paired
   \<and> bridgeID (config (snd (pairWithBridge example_library completed_pairing
            (beforePairing moved_config stored unit_listed_instance)))) = Some UNKNOWN_BRIDGE_ID
   \<and> bridgeCerts (secrets (snd (pairWithBridge example_library completed_pairing
            (beforePairing moved_config stored unit_listed_instance)))) =
        Some \<lparr>ca = ''new root'', certificate = ''new certificate'',
              privateKey = ''new private key''\<rparr>
   \<and> fst (configUpdated example_library moved_config stored completed_pairing
            (enumeration [Device control_unit, Device dimmer]) unit_listed_instance) = Returned
   \<and> bridgeID (config (snd (configUpdated example_library moved_config stored completed_pairing
            (enumeration [Device control_unit, Device dimmer]) unit_listed_instance)))
        = Some ''0A1B2C3D''
   \<and> devicesOnBridge (snd (configUpdated example_library moved_config stored completed_pairing
            (enumeration [Device control_unit, Device dimmer]) unit_listed_instance))
        = [control_unit, dimmer, dimmer]"
  by (simp add: unit_listed_instance_def completed_pairing_def configUpdated_def
        beforePairing_def reinitialize_def init_def connectToBridge_def loadDevices_def
        startDiscovery_def exportDefinitions_def pairWithBridge_def generateKeys_def
        requestCertificate_def storeCertificates_def assignBridgeID_def waitForButton_def
        waitForCertificate_def pairing_run_def status_message_def signing_message_def
        example_library_def example_keys_def enumeration_def paired_instance_def
        paired_config_def moved_config_def stored_def constructor_def falsy_def emit_def
        deliver_def dimmer_def control_unit_def UNKNOWN_BRIDGE_ID_def Let_def)

text \<open>
  C5. If the pairing client connects and no inbound message that contains the
  physical-access permission arrives within 30 seconds (30000 ms) of the start of the wait,
  pairing ends by the timeout exit with the status \<^verbatim>\<open>Pairing timed out: timed out\<close>, no key
  pair is generated, nothing is saved, and the secrets and the configuration are unchanged.
\<close>

theorem C5_no_confirmation_within_30_seconds:
  assumes "pairingConnect env = None"
    and "\<forall>(t, m) \<in> set (inbound env).
           t < 30000 \<longrightarrow> ''PhysicalAccess'' \<notin> set (Permissions (Status (Body m)))"
  shows "fst (pairWithBridge lib env s) = PairingTimeout
       \<and> (\<exists>es. trace (snd (pairWithBridge lib env s)) = trace s @ es
             \<and> UpdateStatus ConnectionFailure (Some ''Pairing timed out: timed out'') \<in> set es
             \<and> GenerateKeyPair 2048 \<notin> set es
             \<and> (\<forall>c x. SaveConfig c x \<notin> set es))
       \<and> secrets (snd (pairWithBridge lib env s)) = secrets s
       \<and> config (snd (pairWithBridge lib env s)) = config s"
proof -
  let ?s1 = "emit [Log debug ''Pairing client connecting'',
                   PairingConnect (host (config s)) PAIRING_PORT] s"
  let ?s2 = "deliver (discoveredDuring env AwaitConnect) ?s1"
  let ?s3 = "emit [Log info ''Waiting for button press on bridge...''] ?s2"
  let ?s4 = "deliver (discoveredDuring env AwaitButton) ?s3"
  obtain logs where w: "waitForButton lib (inbound env) = (logs, Rejected ''timed out'')"
    and logs: "list_all is_Log logs"
    using waitForButton_unconfirmed [OF assms(2)] by blast
  obtain d1 where d1: "trace ?s2 = trace ?s1 @ d1" "list_all is_Log d1"
    using deliver_trace by blast
  obtain d2 where d2: "trace ?s4 = trace ?s3 @ d2" "list_all is_Log d2"
    using deliver_trace by blast
  have run: "pairWithBridge lib env s =
      (PairingTimeout,
       emit (logs @ [Log error ''waiting for button push failed. Error: timed out'',
                     UpdateStatus ConnectionFailure (Some ''Pairing timed out: timed out'')]) ?s4)"
    using assms(1) w by (simp add: pairWithBridge_def Let_def)
  have "\<forall>n. GenerateKeyPair n \<notin> set (d1 @ d2 @ logs)"
    using d1 d2 logs is_Log_no_GenerateKeyPair by auto
  moreover have "\<forall>c x. SaveConfig c x \<notin> set (d1 @ d2 @ logs)"
    using d1 d2 logs is_Log_no_SaveConfig by auto
  ultimately show ?thesis
    using run d1(1) d2(1) by (simp add: emit_fields deliver_fields)
qed

theorem C5_timeout_witness:
  "pairingConnect (pairing_run [(1000, status_message [''Public'']),
                                (40000, status_message [''Public'', ''PhysicalAccess''])]) = None
   \<and> fst (pairWithBridge example_library
             (pairing_run [(1000, status_message [''Public'']),
                           (40000, status_message [''Public'', ''PhysicalAccess''])])
             paired_instance) = PairingTimeout
   \<and> secrets (snd (pairWithBridge example_library
             (pairing_run [(1000, status_message [''Public'']),
                           (40000, status_message [''Public'', ''PhysicalAccess''])])
             paired_instance)) = \<lparr>bridgeCerts = Some old_certs\<rparr>"
proof -
  let ?env = "pairing_run [(1000, status_message [''Public'']),
                           (40000, status_message [''Public'', ''PhysicalAccess''])]"
  have h1: "pairingConnect ?env = None"
    by (simp add: pairing_run_def)
  have h2: "\<forall>(t, m) \<in> set (inbound ?env).
              t < 30000 \<longrightarrow> ''PhysicalAccess'' \<notin> set (Permissions (Status (Body m)))"
    by (simp add: pairing_run_def status_message_def)
  have s: "secrets paired_instance = \<lparr>bridgeCerts = Some old_certs\<rparr>"
    by (simp add: paired_instance_def constructor_def)
  show ?thesis
    using h1 s C5_no_confirmation_within_30_seconds [OF h1 h2, of example_library paired_instance]
    by simp
qed

text \<open>
  C6 (as amended). Let the pairing client connect, the first message arrive before
  30000 ms with the physical-access permission, and the key generation succeed, so that
  the CSR is submitted at \<open>t0 + keygenMillis\<close>. If no message at all arrives within
  5000 ms of that, pairing ends by the CSR timeout with the status
  \<^verbatim>\<open>CSR failed: CSR response timed out\<close>. If the message that arrives within 5000 ms has
  a status code other than \<^verbatim>\<open>200 OK\<close>, pairing ends by the CSR rejection, and the status
  carries the raw response. On both of these exits the secrets and the configuration are
  unchanged and nothing is saved.
\<close>

theorem C6_csr_timeout_and_rejection:
  assumes "pairingConnect env = None"
    and "inbound env = (t0, confirm) # rest" and "t0 < 30000"
    and "''PhysicalAccess'' \<in> set (Permissions (Status (Body confirm)))"
    and "generateKeyPair env = Inr keys"
  shows "((\<forall>(t, m) \<in> set rest. t < t0 + keygenMillis env \<or> t0 + keygenMillis env + 5000 \<le> t)
            \<longrightarrow> fst (pairWithBridge lib env s) = CsrTimeout
              \<and> UpdateStatus ConnectionFailure (Some ''CSR failed: CSR response timed out'')
                  \<in> set (trace (snd (pairWithBridge lib env s))))
       \<and> (\<forall>t response rest'.
             next_message (t0 + keygenMillis env) rest = Some ((t, response), rest')
               \<and> t < t0 + keygenMillis env + 5000
               \<and> StatusCode (Header response) \<noteq> ''200 OK''
            \<longrightarrow> fst (pairWithBridge lib env s) = CsrRejected response
              \<and> UpdateStatus ConnectionFailure
                   (Some (''CSR failed: bad CSR response: '' @ JSON_stringify lib response))
                  \<in> set (trace (snd (pairWithBridge lib env s))))
       \<and> (fst (pairWithBridge lib env s) = CsrTimeout
             \<or> (\<exists>response. fst (pairWithBridge lib env s) = CsrRejected response)
            \<longrightarrow> secrets (snd (pairWithBridge lib env s)) = secrets s
              \<and> config (snd (pairWithBridge lib env s)) = config s
              \<and> trace (snd (pairWithBridge lib env s))
                  = trace s @ effects_since s (snd (pairWithBridge lib env s))
              \<and> (\<forall>c x. SaveConfig c x
                    \<notin> set (effects_since s (snd (pairWithBridge lib env s)))))"
proof -
  obtain s2 where run: "pairWithBridge lib env s
                 = requestCertificate lib env keys (t0 + keygenMillis env) rest s2"
    using pairWithBridge_confirmed [OF assms] by blast
  have a: "fst (pairWithBridge lib env s) = CsrTimeout
              \<and> UpdateStatus ConnectionFailure (Some ''CSR failed: CSR response timed out'')
                  \<in> set (trace (snd (pairWithBridge lib env s)))"
    if "\<forall>(t, m) \<in> set rest. t < t0 + keygenMillis env \<or> t0 + keygenMillis env + 5000 \<le> t"
    using requestCertificate_timeout [OF waitForCertificate_silent [OF that], of lib env keys s2]
    unfolding run by simp
  have b: "fst (pairWithBridge lib env s) = CsrRejected response
              \<and> UpdateStatus ConnectionFailure
                   (Some (''CSR failed: bad CSR response: '' @ JSON_stringify lib response))
                  \<in> set (trace (snd (pairWithBridge lib env s)))"
    if "next_message (t0 + keygenMillis env) rest = Some ((t, response), rest')
               \<and> t < t0 + keygenMillis env + 5000
               \<and> StatusCode (Header response) \<noteq> ''200 OK''" for t response rest'
    using requestCertificate_rejected [of "t0 + keygenMillis env" rest t response rest' lib env keys s2] that
    unfolding run by simp
  have c: "secrets (snd (pairWithBridge lib env s)) = secrets s
              \<and> config (snd (pairWithBridge lib env s)) = config s
              \<and> trace (snd (pairWithBridge lib env s))
                  = trace s @ effects_since s (snd (pairWithBridge lib env s))
              \<and> (\<forall>c x. SaveConfig c x
                    \<notin> set (effects_since s (snd (pairWithBridge lib env s))))"
    if "fst (pairWithBridge lib env s) = CsrTimeout
             \<or> (\<exists>response. fst (pairWithBridge lib env s) = CsrRejected response)"
    using pairWithBridge_failure [of lib env s "fst (pairWithBridge lib env s)"
                                    "snd (pairWithBridge lib env s)"] that
      pairWithBridge_since [of lib env s] pairing_effect_no_SaveConfig
    by auto
  show ?thesis using a b c by blast
qed

theorem C6_csr_witness:
  "fst (pairWithBridge example_library
          (pairing_run [(1000, status_message [''Public'', ''PhysicalAccess'']),
                        (8000, signing_message ''200 OK'' ''new root'' ''new certificate'')])
          paired_instance) = CsrTimeout
   \<and> fst (pairWithBridge example_library
          (pairing_run [(1000, status_message [''Public'', ''PhysicalAccess'']),
                        (2500, signing_message ''401 Unauthorized'' ''new root'' [])])
          paired_instance) = CsrRejected (signing_message ''401 Unauthorized'' ''new root'' [])
   \<and> UpdateStatus ConnectionFailure (Some ''CSR failed: bad CSR response: 401 Unauthorized'')
       \<in> set (trace (snd (pairWithBridge example_library
          (pairing_run [(1000, status_message [''Public'', ''PhysicalAccess'']),
                        (2500, signing_message ''401 Unauthorized'' ''new root'' [])])
          paired_instance)))
   \<and> secrets (snd (pairWithBridge example_library
          (pairing_run [(1000, status_message [''Public'', ''PhysicalAccess'']),
                        (8000, signing_message ''200 OK'' ''new root'' ''new certificate'')])
          paired_instance)) = \<lparr>bridgeCerts = Some old_certs\<rparr>"
proof -
  let ?late = "pairing_run [(1000, status_message [''Public'', ''PhysicalAccess'']),
                            (8000, signing_message ''200 OK'' ''new root'' ''new certificate'')]"
  let ?bad = "pairing_run [(1000, status_message [''Public'', ''PhysicalAccess'']),
                           (2500, signing_message ''401 Unauthorized'' ''new root'' [])]"
  have s0: "secrets paired_instance = \<lparr>bridgeCerts = Some old_certs\<rparr>"
    by (simp add: paired_instance_def constructor_def)
  have a1: "pairingConnect ?late = None" by (simp add: pairing_run_def)
  have a2: "inbound ?late = (1000, status_message [''Public'', ''PhysicalAccess''])
              # [(8000, signing_message ''200 OK'' ''new root'' ''new certificate'')]"
    by (simp add: pairing_run_def)
  have b1: "pairingConnect ?bad = None" by (simp add: pairing_run_def)
  have b2: "inbound ?bad = (1000, status_message [''Public'', ''PhysicalAccess''])
              # [(2500, signing_message ''401 Unauthorized'' ''new root'' [])]"
    by (simp add: pairing_run_def)
  have t: "(1000::nat) < 30000" by simp
  have c: "''PhysicalAccess'' \<in> set (Permissions (Status (Body
              (status_message [''Public'', ''PhysicalAccess'']))))"
    by (simp add: status_message_def)
  have k1: "generateKeyPair ?late = Inr example_keys" by (simp add: pairing_run_def)
  have k2: "generateKeyPair ?bad = Inr example_keys" by (simp add: pairing_run_def)
  note A = C6_csr_timeout_and_rejection [OF a1 a2 t c k1, of example_library paired_instance]
  note B = C6_csr_timeout_and_rejection [OF b1 b2 t c k2, of example_library paired_instance]
  have quiet: "\<forall>(t, m) \<in> set [(8000, signing_message ''200 OK'' ''new root'' ''new certificate'')].
                 t < 1000 + keygenMillis ?late \<or> 1000 + keygenMillis ?late + 5000 \<le> t"
    by (simp add: pairing_run_def)
  have r1: "fst (pairWithBridge example_library ?late paired_instance) = CsrTimeout"
    using conjunct1 [OF A] quiet by blast
  have r2: "secrets (snd (pairWithBridge example_library ?late paired_instance))
              = \<lparr>bridgeCerts = Some old_certs\<rparr>"
    using conjunct2 [OF conjunct2 [OF A]] r1 s0 by simp
  have nm: "next_message (1000 + keygenMillis ?bad)
              [(2500, signing_message ''401 Unauthorized'' ''new root'' [])]
              = Some ((2500, signing_message ''401 Unauthorized'' ''new root'' []), [])
            \<and> 2500 < 1000 + keygenMillis ?bad + 5000
            \<and> StatusCode (Header (signing_message ''401 Unauthorized'' ''new root'' []))
                \<noteq> ''200 OK''"
    by (simp add: pairing_run_def signing_message_def)
  have r3: "fst (pairWithBridge example_library ?bad paired_instance)
              = CsrRejected (signing_message ''401 Unauthorized'' ''new root'' [])
          \<and> UpdateStatus ConnectionFailure
               (Some (''CSR failed: bad CSR response: ''
                        @ JSON_stringify example_library
                            (signing_message ''401 Unauthorized'' ''new root'' [])))
              \<in> set (trace (snd (pairWithBridge example_library ?bad paired_instance)))"
    using conjunct1 [OF conjunct2 [OF B]] nm by blast
  have js: "''CSR failed: bad CSR response: ''
               @ JSON_stringify example_library
                   (signing_message ''401 Unauthorized'' ''new root'' [])
            = ''CSR failed: bad CSR response: 401 Unauthorized''"
    by (simp add: example_library_def signing_message_def)
  show ?thesis using r1 r2 r3 unfolding js by blast
qed

text \<open>
  C6 as stated fails: after the confirmation the bridge sends its status message once more
  and no signing result ever arrives. The second listener takes whatever message comes
  first as the response; the message says \<^verbatim>\<open>200 OK\<close>, so pairing does not end by the
  CSR timeout: it goes on to the end of the function. In the same way a message that is
  no signing result and has another status code ends pairing by the CSR rejection, not by
  the timeout.
\<close>

theorem C6_stray_message_counterexample:
  "map (\<lambda>(t, m). SigningResult (Body m)) (inbound status_repeated) = [None, None]
   \<and> RequestPair ''companion-module-lutron-caseta''
       \<in> set (trace (snd (pairWithBridge example_library status_repeated paired_instance)))
   \<and> fst (pairWithBridge example_library status_repeated paired_instance) = BundleTypeError
   \<and> fst (pairWithBridge example_library status_repeated paired_instance) \<noteq> CsrTimeout
   \<and> SigningResult (Body busy_notice) = None
   \<and> fst (pairWithBridge example_library
            (pairing_run [(1000, status_message [''Public'', ''PhysicalAccess'']),
                          (2500, busy_notice)])
            paired_instance) = CsrRejected busy_notice"
  by (simp add: status_repeated_def busy_notice_def pairWithBridge_def generateKeys_def
        requestCertificate_def storeCertificates_def assignBridgeID_def waitForButton_def
        waitForCertificate_def pairing_run_def status_message_def example_library_def
        example_keys_def paired_instance_def constructor_def emit_def deliver_def Let_def)

text \<open>
  C7. When pairing completes successfully, the registry at that moment is the registry at the
  start with the discovery events handled during the run; the host is unchanged, and the
  bridge id of the configuration is the registry's entry for the host when there is one, and
  the sentinel \<^verbatim>\<open>unknown-bridge-id\<close> otherwise.
\<close>

theorem C7_identity_from_registry:
  assumes "fst (pairWithBridge lib env s) = Paired"
  shows "discoveredBridges (snd (pairWithBridge lib env s))
           = discoveredBridges (deliver (discoveredWhilePairing env) s)
       \<and> host (config (snd (pairWithBridge lib env s))) = host (config s)
       \<and> bridgeID (config (snd (pairWithBridge lib env s))) =
           (case discoveredBridges (snd (pairWithBridge lib env s)) (host (config s)) of
              Some recorded \<Rightarrow> Some recorded
            | None \<Rightarrow> Some UNKNOWN_BRIDGE_ID)"
proof -
  obtain keys certResult s2 where
    fin: "pairWithBridge lib env s = storeCertificates lib keys certResult s2"
    and s2: "config s2 = config s"
      "discoveredBridges s2 = discoveredBridges (deliver (discoveredWhilePairing env) s)"
    using pairWithBridge_Paired [OF disjI1 [OF assms]] by blast
  show ?thesis
    unfolding fin using s2
    by (auto simp: storeCertificates_fields assignBridgeID_fields split: option.splits)
qed

theorem C7_identity_witness:
  "fst (pairWithBridge example_library
          ((pairing_run [(1000, status_message [''Public'', ''PhysicalAccess'']),
                         (2500, signing_message ''200 OK'' ''new root'' ''new certificate'')])
             \<lparr>discoveredDuring := (\<lambda>suspension. if suspension = AwaitButton then [ev1] else [])\<rparr>)
          (paired_instance\<lparr>config := paired_config\<lparr>host := ''10.0.0.5''\<rparr>\<rparr>)) = Paired
   \<and> bridgeID (config (snd (pairWithBridge example_library
          ((pairing_run [(1000, status_message [''Public'', ''PhysicalAccess'']),
                         (2500, signing_message ''200 OK'' ''new root'' ''new certificate'')])
             \<lparr>discoveredDuring := (\<lambda>suspension. if suspension = AwaitButton then [ev1] else [])\<rparr>)
          (paired_instance\<lparr>config := paired_config\<lparr>host := ''10.0.0.5''\<rparr>\<rparr>)))) = Some ''B1''
   \<and> fst (pairWithBridge example_library
          (pairing_run [(1000, status_message [''Public'', ''PhysicalAccess'']),
                        (2500, signing_message ''200 OK'' ''new root'' ''new certificate'')])
          paired_instance) = Paired
   \<and> bridgeID (config (snd (pairWithBridge example_library
          (pairing_run [(1000, status_message [''Public'', ''PhysicalAccess'']),
                        (2500, signing_message ''200 OK'' ''new root'' ''new certificate'')])
          paired_instance))) = Some ''unknown-bridge-id''"
proof -
  let ?ms = "[(1000, status_message [''Public'', ''PhysicalAccess'']),
              (2500, signing_message ''200 OK'' ''new root'' ''new certificate'')]"
  let ?e1 = "(pairing_run ?ms)
               \<lparr>discoveredDuring := (\<lambda>suspension. if suspension = AwaitButton then [ev1] else [])\<rparr>"
  let ?s1 = "paired_instance\<lparr>config := paired_config\<lparr>host := ''10.0.0.5''\<rparr>\<rparr>"
  have p1: "fst (pairWithBridge example_library ?e1 ?s1) = Paired"
    by (simp add: pairWithBridge_def generateKeys_def requestCertificate_def waitForButton_def
          waitForCertificate_def storeCertificates_def pairing_run_def status_message_def
          signing_message_def Let_def)
  have p2: "fst (pairWithBridge example_library (pairing_run ?ms) paired_instance) = Paired"
    by (simp add: pairWithBridge_def generateKeys_def requestCertificate_def waitForButton_def
          waitForCertificate_def storeCertificates_def pairing_run_def status_message_def
          signing_message_def Let_def)
  have r1: "discoveredBridges (deliver (discoveredWhilePairing ?e1) ?s1) ''10.0.0.5'' = Some ''B1''"
    by (simp add: discoveredWhilePairing_def pairing_run_def deliver_def discovered_def emit_def
          ev1_def)
  have r2: "discoveredBridges (deliver (discoveredWhilePairing (pairing_run ?ms)) paired_instance)
              ''192.168.1.50'' = None"
    by (simp add: discoveredWhilePairing_def pairing_run_def deliver_def paired_instance_def
          constructor_def)
  have h1: "host (config ?s1) = ''10.0.0.5''"
    by (simp add: paired_config_def)
  have h2: "host (config paired_instance) = ''192.168.1.50''"
    by (simp add: paired_instance_def paired_config_def constructor_def)
  show ?thesis
    using p1 p2 r1 r2 h1 h2
      C7_identity_from_registry [OF p1] C7_identity_from_registry [OF p2]
    by (simp add: UNKNOWN_BRIDGE_ID_def)
qed

text \<open>
  C8. For every configuration update whose host differs from the previous host, the effects
  of \<^verbatim>\<open>configUpdated\<close> are: three logs and status updates, then all the effects of one run
  of \<^verbatim>\<open>pairWithBridge\<close> from its start to its return, among them the connection of the
  pairing client to the new host and no opening of a session, then the rest. So every
  session that the update opens is opened after the pairing attempt has ended.
\<close>

theorem C8_pairing_completes_before_reconnection:
  assumes "host cfg \<noteq> host (config s)"
  shows "\<exists>pairing post.
           trace (snd (pairWithBridge lib penv (beforePairing cfg secs s)))
             = trace s @ [Log debug ''host changed'',
                          UpdateStatus Connecting (Some ''Pairing with Bridge''),
                          Log info ''pairing...''] @ pairing
         \<and> PairingConnect (host cfg) PAIRING_PORT \<in> set pairing
         \<and> (\<forall>h p a k c. LeapConnect h p a k c \<notin> set pairing)
         \<and> trace (snd (configUpdated lib cfg secs penv benv s))
             = trace s @ [Log debug ''host changed'',
                          UpdateStatus Connecting (Some ''Pairing with Bridge''),
                          Log info ''pairing...''] @ pairing @ post"
proof -
  obtain pairing post where
    r: "trace (snd (pairWithBridge lib penv (beforePairing cfg secs s)))
             = trace (beforePairing cfg secs s) @ pairing"
       "PairingConnect (host cfg) PAIRING_PORT \<in> set pairing"
       "list_all pairing_effect pairing"
       "trace (snd (configUpdated lib cfg secs penv benv s))
             = trace (beforePairing cfg secs s) @ pairing @ post"
    using configUpdated_host_changed [OF assms, of lib penv secs benv] by blast
  have "\<forall>h p a k c. LeapConnect h p a k c \<notin> set pairing"
    using r(3) pairing_effect_no_LeapConnect by blast
  then show ?thesis
    using r(1,2,4) by (intro exI [of _ pairing] exI [of _ post]) (simp add: beforePairing_fields)
qed

theorem C8_order_witness:
  "host moved_config \<noteq> host (config connected_instance)
   \<and> (\<exists>pairing post.
         trace (snd (pairWithBridge example_library (pairing_run [])
                       (beforePairing moved_config stored connected_instance)))
           = trace connected_instance @ [Log debug ''host changed'',
                UpdateStatus Connecting (Some ''Pairing with Bridge''),
                Log info ''pairing...''] @ pairing
       \<and> PairingConnect (host moved_config) PAIRING_PORT \<in> set pairing
       \<and> (\<forall>h p a k c. LeapConnect h p a k c \<notin> set pairing)
       \<and> trace (snd (configUpdated example_library moved_config stored (pairing_run [])
                       (enumeration [Device pico]) connected_instance))
           = trace connected_instance @ [Log debug ''host changed'',
                UpdateStatus Connecting (Some ''Pairing with Bridge''),
                Log info ''pairing...''] @ pairing @ post)"
proof -
  have c: "config connected_instance = paired_config"
    by (simp add: connected_instance_def init_def connectToBridge_def loadDevices_def
          startDiscovery_def exportDefinitions_def enumeration_def paired_instance_def
          paired_config_def stored_def constructor_def falsy_def emit_def dimmer_def
          UNKNOWN_BRIDGE_ID_def Let_def)
  have h: "host moved_config \<noteq> host (config connected_instance)"
    unfolding c by (simp add: moved_config_def paired_config_def)
  show ?thesis
    using h C8_pairing_completes_before_reconnection
            [OF h, of example_library "pairing_run []" stored "enumeration [Device pico]"]
    by blast
qed

text \<open>
  C9. For every finite sequence of discovery events applied to the registry, the final
  mapping gives each address the bridge id of the last event for that address (and keeps the
  earlier entry of an address no event mentions); two sequences that differ only in the order
  of events for distinct addresses, that is, that hold the same events in the same order for
  every single address, end in the same mapping.
\<close>

theorem C9_registry_last_event_per_address:
  "discoveredBridges (deliver events s) a =
     (if filter (\<lambda>e. ipAddr e = a) events = [] then discoveredBridges s a
      else Some (bridgeid (last (filter (\<lambda>e. ipAddr e = a) events))))
   \<and> ((\<forall>b. filter (\<lambda>e. ipAddr e = b) events = filter (\<lambda>e. ipAddr e = b) events')
        \<longrightarrow> discoveredBridges (deliver events s) = discoveredBridges (deliver events' s))"
proof (intro conjI impI)
  show "discoveredBridges (deliver events s) a =
     (if filter (\<lambda>e. ipAddr e = a) events = [] then discoveredBridges s a
      else Some (bridgeid (last (filter (\<lambda>e. ipAddr e = a) events))))"
    by (rule deliver_registry_last)
next
  assume same: "\<forall>b. filter (\<lambda>e. ipAddr e = b) events = filter (\<lambda>e. ipAddr e = b) events'"
  show "discoveredBridges (deliver events s) = discoveredBridges (deliver events' s)"
  proof (rule ext)
    fix b
    show "discoveredBridges (deliver events s) b = discoveredBridges (deliver events' s) b"
      using same by (simp add: deliver_registry_last)
  qed
qed

theorem C9_registry_witness:
  "(\<forall>b. filter (\<lambda>e. ipAddr e = b) [ev1, ev2, ev3] = filter (\<lambda>e. ipAddr e = b) [ev2, ev1, ev3])
   \<and> discoveredBridges (deliver [ev1, ev2, ev3] paired_instance) ''10.0.0.5'' = Some ''B3''
   \<and> discoveredBridges (deliver [ev1, ev2, ev3] paired_instance)
       = discoveredBridges (deliver [ev2, ev1, ev3] paired_instance)"
proof -
  have h: "\<forall>b. filter (\<lambda>e. ipAddr e = b) [ev1, ev2, ev3] = filter (\<lambda>e. ipAddr e = b) [ev2, ev1, ev3]"
    by (simp add: ev1_def ev2_def ev3_def)
  note T = C9_registry_last_event_per_address
             [of "[ev1, ev2, ev3]" paired_instance "''10.0.0.5''" "[ev2, ev1, ev3]"]
  have a: "discoveredBridges (deliver [ev1, ev2, ev3] paired_instance) ''10.0.0.5'' = Some ''B3''"
    using conjunct1 [OF T] by (simp add: ev1_def ev2_def ev3_def)
  have b: "discoveredBridges (deliver [ev1, ev2, ev3] paired_instance)
             = discoveredBridges (deliver [ev2, ev1, ev3] paired_instance)"
    using conjunct2 [OF T] h by blast
  show ?thesis using h a b by blast
qed

text \<open>
  C10 (evaluation of the code). The host of a connected instance with the identity
  \<^verbatim>\<open>0A1B2C3D\<close> and a stored bundle is changed. During the forced pairing the bridge confirms
  and then sends its status message once more, \<^verbatim>\<open>200 OK\<close> and without a signing result.
  The status check passes, the bridge id is overwritten (with the sentinel, the registry
  having no entry for the host), and reading the certificates raises a \<^verbatim>\<open>TypeError\<close>
  outside the \<^verbatim>\<open>try\<close> block: pairing has failed, the stored bundle is unchanged, but the
  bridge identity is not the previous one; the rejection leaves \<^verbatim>\<open>configUpdated\<close> before
  it saves or reconnects.
\<close>

theorem C10_identity_overwritten_on_type_error:
  "fst (pairWithBridge example_library status_repeated
          (beforePairing moved_config stored connected_instance)) = BundleTypeError
   \<and> bridgeID (config (beforePairing moved_config stored connected_instance))
        = Some ''0A1B2C3D''
   \<and> bridgeID (config (snd (pairWithBridge example_library status_repeated
          (beforePairing moved_config stored connected_instance)))) = Some ''unknown-bridge-id''
   \<and> secrets (snd (pairWithBridge example_library status_repeated
          (beforePairing moved_config stored connected_instance))) = stored
   \<and> fst (configUpdated example_library moved_config stored status_repeated
          (enumeration [Device pico]) connected_instance)
        = Threw ''Cannot read properties of undefined''
   \<and> effects_since connected_instance
        (snd (configUpdated example_library moved_config stored status_repeated
                (enumeration [Device pico]) connected_instance)) =
       [Log debug ''host changed'',
        UpdateStatus Connecting (Some ''Pairing with Bridge''),
        Log info ''pairing...'',
        Log debug ''Pairing client connecting'',
        PairingConnect ''192.168.1.77'' 8083,
        Log info ''Waiting for button press on bridge...'',
        Log debug ''got message 200 OK'',
        Log debug ''Physical access confirmed'',
        Log debug ''Generating keys for CSR'',
        GenerateKeyPair 2048,
        Log debug ''Sending CSR to bridge for signing'',
        RequestPair ''companion-module-lutron-caseta'',
        Log debug ''using bridge id: unknown-bridge-id'',
        Log debug ''Storing bridge certificates'']"
  by (simp add: status_repeated_def connected_instance_def configUpdated_def beforePairing_def
        effects_since_def init_def connectToBridge_def loadDevices_def startDiscovery_def
        exportDefinitions_def pairWithBridge_def generateKeys_def requestCertificate_def
        storeCertificates_def assignBridgeID_def waitForButton_def waitForCertificate_def
        pairing_run_def status_message_def example_library_def example_keys_def
        enumeration_def paired_instance_def paired_config_def moved_config_def stored_def
        constructor_def falsy_def emit_def deliver_def dimmer_def show_optional_def
        UNKNOWN_BRIDGE_ID_def PAIRING_PORT_def Let_def)

end
